theory Spec2Isabelle
  imports Complex_Main "HOL-Library.AList"
begin

section \<open>Values shared by the storage backends\<close>

text \<open>
  A JavaScript \<open>Date\<close> is kept as the readings the code takes from it: the epoch
  milliseconds (\<open>getTime\<close>, also what \<open>Date.now()\<close> returns) and the local calendar
  fields \<open>getFullYear\<close>, \<open>getMonth\<close>, \<open>getDate\<close>. How the runtime derives the calendar
  fields from the milliseconds (time zone) is not part of the repository.
  Every operation that reads the clock takes the reading as its argument \<open>now\<close>.
\<close>

record Date =
  getTime :: nat
  getFullYear :: nat
  getMonth :: nat
  getDate :: nat

text \<open>\<open>Number.prototype.toString(radix)\<close> on a non-negative integer, and
  \<open>String.prototype.toUpperCase\<close> on ASCII text.\<close>

definition digit_char :: "nat \<Rightarrow> char" where
  "digit_char n = ''0123456789abcdefghijklmnopqrstuvwxyz'' ! n"

fun toString10 :: "nat \<Rightarrow> string" where
  "toString10 n = (if n < 10 then [digit_char n] else toString10 (n div 10) @ [digit_char (n mod 10)])"

fun toString36 :: "nat \<Rightarrow> string" where
  "toString36 n = (if n < 36 then [digit_char n] else toString36 (n div 36) @ [digit_char (n mod 36)])"

declare toString10.simps [simp del]
declare toString36.simps [simp del]

definition toUpperCase_char :: "char \<Rightarrow> char" where
  "toUpperCase_char c =
     (case map_of (zip ''abcdefghijklmnopqrstuvwxyz'' ''ABCDEFGHIJKLMNOPQRSTUVWXYZ'') c of
        None \<Rightarrow> c
      | Some C \<Rightarrow> C)"

definition toUpperCase :: "string \<Rightarrow> string" where
  "toUpperCase s = map toUpperCase_char s"

text \<open>\<open>a || b\<close> on an optional string: an absent or empty \<open>a\<close> gives \<open>b\<close>.\<close>

definition or_else :: "string option \<Rightarrow> string \<Rightarrow> string" where
  "or_else a b = (case a of None \<Rightarrow> b | Some s \<Rightarrow> if s = [] then b else s)"

subsection \<open>JavaScript numbers\<close>

text \<open>
  A JavaScript number is an IEEE 754 double; the model keeps a finite double as the
  rational number it is. \<open>fl\<close> rounds a rational to the nearest double, ties to the
  even mantissa: the value is scaled by a power of two \<open>p\<close> until its magnitude lies in
  \<open>[2^52, 2^53)\<close> (\<open>scale_down\<close> for large values, \<open>scale_up\<close> for small ones, which stops
  at \<open>2^1074\<close>, the spacing of the subnormal numbers), rounded to an integer by \<open>rne\<close> and
  scaled back. \<open>NaN\<close>, the infinities (a magnitude of \<open>2^1024\<close> or more) and the sign of
  zero are outside the model.

  An amount reaches the storage layer as a string. The model takes a decimal string as
  the rational it denotes; strings that are not decimal numbers are outside the model.
  \<open>parseFloat\<close> of a decimal string is the double nearest to its value, \<open>x + y\<close> and
  \<open>x - y\<close> are \<open>fl (x + y)\<close> and \<open>fl (x - y)\<close>, and \<open>x.toFixed(2)\<close> is the decimal
  \<open>n / 100\<close> for the integer \<open>n\<close> nearest to \<open>100 x\<close>, the larger in magnitude of two
  that are equally near; \<open>toFixed2\<close> gives that \<open>n\<close>.
\<close>

definition rne :: "rat \<Rightarrow> int" where
  "rne y =
     (let f = \<lfloor>y\<rfloor>; r = y - of_int f
      in if r < 1 / 2 then f else if 1 / 2 < r then f + 1 else if even f then f else f + 1)"

fun scale_up :: "nat \<Rightarrow> rat \<Rightarrow> rat \<Rightarrow> rat" where
  "scale_up k ax p = (if k = 0 \<or> 2 ^ 52 \<le> ax * p then p else scale_up (k - 1) ax (p * 2))"

fun scale_down :: "nat \<Rightarrow> rat \<Rightarrow> rat \<Rightarrow> rat" where
  "scale_down k ax p = (if k = 0 \<or> ax / p < 2 ^ 53 then p else scale_down (k - 1) ax (p * 2))"

declare scale_up.simps [simp del]
declare scale_down.simps [simp del]

definition fl :: "rat \<Rightarrow> rat" where
  "fl x =
     (if x = 0 then 0
      else if 2 ^ 53 \<le> \<bar>x\<bar>
        then (let p = scale_down 971 \<bar>x\<bar> 1 in of_int (rne (x / p)) * p)
        else (let p = scale_up 1074 \<bar>x\<bar> 1 in of_int (rne (x * p)) / p))"

definition parseFloat :: "rat \<Rightarrow> rat" where
  "parseFloat s = fl s"

definition round_hundredths :: "rat \<Rightarrow> int" where
  "round_hundredths x =
     (if 0 \<le> x then \<lfloor>x * 100 + 1 / 2\<rfloor> else - \<lfloor>- x * 100 + 1 / 2\<rfloor>)"

definition toFixed2 :: "rat \<Rightarrow> int" where
  "toFixed2 x = round_hundredths x"

subsection \<open>PostgreSQL columns\<close>

text \<open>
  A column declared \<open>decimal(p, 2)\<close> in \<open>schema.ts\<close> (wallet balance, transaction amount,
  balanceAfter, withdrawal amount, fee and net amount, referral commission) holds a
  decimal with two fractional digits; the model keeps it as its integer number of
  hundredths, so that \<open>"97.50"\<close> is \<open>9750\<close>. The database rounds the decimal it is given
  to two places, half away from zero (\<open>numeric_2\<close>), and refuses it with a numeric
  overflow when the rounded value needs more than \<open>p\<close> digits (\<open>numeric_fits\<close>).
  A column declared \<open>varchar(n)\<close> refuses a string of more than \<open>n\<close> characters unless
  the characters beyond the \<open>n\<close>-th are all spaces, which it cuts off (\<open>varchar_fits\<close>,
  \<open>varchar\<close>); characters are counted as the bytes of ASCII text. Ids are taken to lie
  within the range of the integer columns. \<open>decimal_text\<close> is the text of a value of
  hundredths.
\<close>

definition numeric_2 :: "rat \<Rightarrow> int" where
  "numeric_2 x = round_hundredths x"

definition numeric_fits :: "nat \<Rightarrow> int \<Rightarrow> bool" where
  "numeric_fits p h = (\<bar>h\<bar> < 10 ^ p)"

definition varchar_fits :: "nat \<Rightarrow> string \<Rightarrow> bool" where
  "varchar_fits n s = (length s \<le> n \<or> list_all (\<lambda>c. c = CHR '' '') (drop n s))"

definition varchar :: "nat \<Rightarrow> string \<Rightarrow> string" where
  "varchar n s = take n s"

definition varchar_fits_opt :: "nat \<Rightarrow> string option \<Rightarrow> bool" where
  "varchar_fits_opt n v = (case v of None \<Rightarrow> True | Some s \<Rightarrow> varchar_fits n s)"


text \<open>
  What a storage call gives back: an \<open>Error\<close> thrown by the code itself (with its
  message), or an error raised by the database for what \<open>schema.ts\<close> declares: a
  violated constraint (\<open>references\<close>, \<open>unique\<close>) or a value that does not fit its column
  (\<open>decimal(p, 2)\<close>, \<open>varchar(n)\<close>). A statement that breaks several of these rules at
  once fails with one error; the model takes them in the order: a missing referenced row,
  a string that is too long, a numeric overflow, a duplicate. PostgreSQL converts the
  values of a row before it checks its constraints, so for such a statement it can name
  another of the errors; in every case the statement fails and stores nothing. The store
  after the call is returned beside the result, so that a failed call shows what it left
  behind.
\<close>

datatype error =
  Error string | ForeignKeyViolation | UniqueViolation | StringTooLong | NumericOverflow

section \<open>Rows of \<open>schema.ts\<close>\<close>

text \<open>A nullable column is an \<open>option\<close>; \<open>jsonb\<close> columns are kept as their text.\<close>

record User =
  u_id :: nat
  u_username :: string
  u_email :: string
  u_plan :: string
  u_dailyUsage :: int
  u_lastUsageReset :: Date
  u_brandAnalysisUsage :: int
  u_nameImprovementUsage :: int
  u_stripeCustomerId :: "string option"
  u_stripeSubscriptionId :: "string option"
  u_createdAt :: Date

record DigitalProductPurchase =
  p_id :: nat
  p_userId :: "nat option"
  p_productId :: nat
  p_purchasePrice :: int
  p_paymentMethod :: string
  p_paymentId :: "string option"
  p_downloadCount :: int
  p_lastDownloadAt :: "Date option"
  p_createdAt :: Date

record ReferralCode =
  rc_id :: nat
  rc_userId :: nat
  rc_code :: string
  rc_isActive :: "bool option"
  rc_createdAt :: "Date option"

record Referral =
  r_id :: nat
  r_referrerId :: nat
  r_refereeId :: nat
  r_referralCode :: string
  r_status :: "string option"
  r_conversionDate :: "Date option"
  r_commissionAmount :: "rat option"
  r_currency :: "string option"
  r_createdAt :: "Date option"

record DigitalWallet =
  w_id :: nat
  w_userId :: nat
  w_walletAddress :: string
  w_walletType :: string
  w_balance :: "int option"
  w_currency :: "string option"
  w_isActive :: "bool option"
  w_lastTransactionAt :: "Date option"
  w_createdAt :: "Date option"
  w_updatedAt :: "Date option"

record WalletTransaction =
  wt_id :: nat
  wt_walletId :: nat
  wt_transactionType :: string
  wt_amount :: int
  wt_currency :: "string option"
  wt_description :: "string option"
  wt_referenceId :: "string option"
  wt_sourceType :: "string option"
  wt_sourceId :: "nat option"
  wt_status :: "string option"
  wt_balanceAfter :: int
  wt_metadata :: "string option"
  wt_createdAt :: "Date option"

text \<open>\<open>Omit<InsertWalletTransaction, 'walletId' | 'balanceAfter'>\<close>: what the caller of
  \<open>addWalletTransaction\<close> passes; an absent optional field is \<open>None\<close>, and the amount is
  the decimal its string denotes.\<close>

record InsertWalletTransaction =
  it_transactionType :: string
  it_amount :: rat
  it_currency :: "string option"
  it_description :: "string option"
  it_referenceId :: "string option"
  it_sourceType :: "string option"
  it_sourceId :: "nat option"
  it_status :: "string option"
  it_metadata :: "string option"

record WalletWithdrawal =
  ww_id :: nat
  ww_walletId :: nat
  ww_amount :: int
  ww_currency :: "string option"
  ww_withdrawalMethod :: string
  ww_withdrawalDetails :: "string option"
  ww_status :: "string option"
  ww_processedAt :: "Date option"
  ww_transactionFee :: "int option"
  ww_netAmount :: int
  ww_externalTransactionId :: "string option"
  ww_notes :: "string option"
  ww_createdAt :: "Date option"
  ww_updatedAt :: "Date option"

text \<open>\<open>Omit<InsertWalletWithdrawal, 'walletId' | 'netAmount'>\<close>.\<close>

record InsertWalletWithdrawal =
  iw_amount :: rat
  iw_currency :: "string option"
  iw_withdrawalMethod :: string
  iw_withdrawalDetails :: "string option"
  iw_status :: "string option"
  iw_processedAt :: "Date option"
  iw_transactionFee :: "rat option"
  iw_externalTransactionId :: "string option"
  iw_notes :: "string option"

section \<open>The database behind \<open>DatabaseStorage\<close>\<close>

text \<open>
  Each table is the list of its rows in insertion order, with the next value of its
  \<open>serial\<close> primary key. A \<open>select ... where\<close> is a \<open>filter\<close>, the destructuring
  \<open>const [row] = ...\<close> takes the first row (\<open>List.find\<close>), and an \<open>update ... where\<close>
  rewrites every row that matches. An insert draws the id of its row from the sequence
  before the constraints are checked, so an insert that is refused adds no row but has
  used up an id.
\<close>

record db =
  tbl_users :: "User list"
  tbl_digitalProductPurchases :: "DigitalProductPurchase list"
  tbl_referralCodes :: "ReferralCode list"
  tbl_referrals :: "Referral list"
  tbl_digitalWallets :: "DigitalWallet list"
  tbl_walletTransactions :: "WalletTransaction list"
  tbl_walletWithdrawals :: "WalletWithdrawal list"
  seq_referralCodes :: nat
  seq_digitalWallets :: nat
  seq_walletTransactions :: nat
  seq_walletWithdrawals :: nat

text \<open>The default a column takes when the insert leaves it out.\<close>

definition or_default :: "'a option \<Rightarrow> 'a \<Rightarrow> 'a option" where
  "or_default v d = (case v of None \<Rightarrow> Some d | Some x \<Rightarrow> Some x)"

subsection \<open>Wallets\<close>

definition DatabaseStorage_createWallet ::
  "nat \<Rightarrow> string \<Rightarrow> Date \<Rightarrow> db \<Rightarrow> (error + DigitalWallet) \<times> db" where
  "DatabaseStorage_createWallet userId walletType now st =
     (let walletAddress = ''FMBN'' @ toString10 userId @ toUpperCase walletType @
                          toUpperCase (toString36 (getTime now));
          wallet = \<lparr> w_id = seq_digitalWallets st, w_userId = userId,
                     w_walletAddress = varchar 100 walletAddress,
                     w_walletType = varchar 50 walletType,
                     w_balance = Some 0, w_currency = Some ''USD'', w_isActive = Some True,
                     w_lastTransactionAt = None, w_createdAt = Some now,
                     w_updatedAt = Some now \<rparr>;
          refused = st\<lparr> seq_digitalWallets := Suc (seq_digitalWallets st) \<rparr>
      in if userId \<notin> set (map u_id (tbl_users st)) then (Inl ForeignKeyViolation, refused)
         else if varchar_fits 100 walletAddress \<and> varchar_fits 50 walletType
           then (if w_walletAddress wallet \<in> set (map w_walletAddress (tbl_digitalWallets st))
                 then (Inl UniqueViolation, refused)
                 else (Inr wallet,
                       st\<lparr> tbl_digitalWallets := tbl_digitalWallets st @ [wallet],
                            seq_digitalWallets := Suc (seq_digitalWallets st) \<rparr>))
         else (Inl StringTooLong, refused))"

text \<open>\<open>wallet?.balance || "0.00"\<close>: no row, or a null balance, reads as zero. The result
  is the string of the balance, as hundredths.\<close>

definition DatabaseStorage_getWalletBalance :: "nat \<Rightarrow> db \<Rightarrow> int" where
  "DatabaseStorage_getWalletBalance walletId st =
     (case find (\<lambda>w. w_id w = walletId) (tbl_digitalWallets st) of
        None \<Rightarrow> 0
      | Some wallet \<Rightarrow> (case w_balance wallet of None \<Rightarrow> 0 | Some b \<Rightarrow> b))"

text \<open>
  \<open>addWalletTransaction\<close> computes the new balance in doubles and passes
  \<open>newBalance.toFixed(2)\<close> as \<open>balanceAfter\<close>, while the amount goes to the database as
  the string the caller gave, which the column rounds by itself.
\<close>

definition DatabaseStorage_addWalletTransaction ::
  "nat \<Rightarrow> InsertWalletTransaction \<Rightarrow> Date \<Rightarrow> db \<Rightarrow> (error + WalletTransaction) \<times> db" where
  "DatabaseStorage_addWalletTransaction walletId transaction now st =
     (let currentBalance = DatabaseStorage_getWalletBalance walletId st;
          currentBalanceNum = parseFloat (of_int currentBalance / 100);
          transactionAmount = parseFloat (it_amount transaction);
          newBalance = (if it_transactionType transaction = ''credit''
                        then fl (currentBalanceNum + transactionAmount)
                        else fl (currentBalanceNum - transactionAmount));
          currency = or_default (it_currency transaction) ''USD'';
          status = or_default (it_status transaction) ''completed'';
          walletTransaction =
            \<lparr> wt_id = seq_walletTransactions st, wt_walletId = walletId,
              wt_transactionType = varchar 20 (it_transactionType transaction),
              wt_amount = numeric_2 (it_amount transaction),
              wt_currency = map_option (varchar 3) currency,
              wt_description = it_description transaction,
              wt_referenceId = map_option (varchar 100) (it_referenceId transaction),
              wt_sourceType = map_option (varchar 50) (it_sourceType transaction),
              wt_sourceId = it_sourceId transaction,
              wt_status = map_option (varchar 20) status,
              wt_balanceAfter = toFixed2 newBalance,
              wt_metadata = it_metadata transaction,
              wt_createdAt = Some now \<rparr>;
          refused = st\<lparr> seq_walletTransactions := Suc (seq_walletTransactions st) \<rparr>
      in if walletId \<notin> set (map w_id (tbl_digitalWallets st))
           then (Inl ForeignKeyViolation, refused)
         else if varchar_fits 20 (it_transactionType transaction) \<and>
                 varchar_fits_opt 3 currency \<and>
                 varchar_fits_opt 100 (it_referenceId transaction) \<and>
                 varchar_fits_opt 50 (it_sourceType transaction) \<and>
                 varchar_fits_opt 20 status
           then (if numeric_fits 15 (numeric_2 (it_amount transaction)) \<and>
                    numeric_fits 15 (toFixed2 newBalance)
                 then (Inr walletTransaction,
                       st\<lparr> tbl_walletTransactions :=
                              tbl_walletTransactions st @ [walletTransaction],
                            seq_walletTransactions := Suc (seq_walletTransactions st),
                            tbl_digitalWallets :=
                              map (\<lambda>w. if w_id w = walletId
                                        then w\<lparr> w_balance := Some (toFixed2 newBalance),
                                                w_lastTransactionAt := Some now,
                                                w_updatedAt := Some now \<rparr>
                                        else w)
                                  (tbl_digitalWallets st) \<rparr>)
                 else (Inl NumericOverflow, refused))
         else (Inl StringTooLong, refused))"



text \<open>
  \<open>createWithdrawal\<close> stores the withdrawal and then calls \<open>addWalletTransaction\<close>;
  there is no transaction around the two, so when the second is refused the withdrawal
  row stays and the call fails.
\<close>

definition DatabaseStorage_createWithdrawal ::
  "nat \<Rightarrow> InsertWalletWithdrawal \<Rightarrow> Date \<Rightarrow> db \<Rightarrow> (error + WalletWithdrawal) \<times> db" where
  "DatabaseStorage_createWithdrawal walletId withdrawal now st =
     (let transactionFee =
            parseFloat (case iw_transactionFee withdrawal of None \<Rightarrow> 0 | Some f \<Rightarrow> f);
          amount = parseFloat (iw_amount withdrawal);
          netAmount = toFixed2 (fl (amount - transactionFee));
          currency = or_default (iw_currency withdrawal) ''USD'';
          status = or_default (iw_status withdrawal) ''pending'';
          fee = or_default (map_option numeric_2 (iw_transactionFee withdrawal)) 0;
          walletWithdrawal =
            \<lparr> ww_id = seq_walletWithdrawals st, ww_walletId = walletId,
              ww_amount = numeric_2 (iw_amount withdrawal),
              ww_currency = map_option (varchar 3) currency,
              ww_withdrawalMethod = varchar 50 (iw_withdrawalMethod withdrawal),
              ww_withdrawalDetails = iw_withdrawalDetails withdrawal,
              ww_status = map_option (varchar 20) status,
              ww_processedAt = iw_processedAt withdrawal,
              ww_transactionFee = fee,
              ww_netAmount = netAmount,
              ww_externalTransactionId =
                map_option (varchar 100) (iw_externalTransactionId withdrawal),
              ww_notes = iw_notes withdrawal,
              ww_createdAt = Some now, ww_updatedAt = Some now \<rparr>;
          refused = st\<lparr> seq_walletWithdrawals := Suc (seq_walletWithdrawals st) \<rparr>
      in if walletId \<notin> set (map w_id (tbl_digitalWallets st))
           then (Inl ForeignKeyViolation, refused)
         else if varchar_fits_opt 3 currency \<and>
                 varchar_fits 50 (iw_withdrawalMethod withdrawal) \<and>
                 varchar_fits_opt 20 status \<and>
                 varchar_fits_opt 100 (iw_externalTransactionId withdrawal)
           then (if numeric_fits 15 (numeric_2 (iw_amount withdrawal)) \<and>
                    numeric_fits 10 (case fee of None \<Rightarrow> 0 | Some f \<Rightarrow> f) \<and>
                    numeric_fits 15 netAmount
                 then (let st1 = st\<lparr> tbl_walletWithdrawals :=
                                        tbl_walletWithdrawals st @ [walletWithdrawal],
                                      seq_walletWithdrawals := Suc (seq_walletWithdrawals st) \<rparr>
                       in case DatabaseStorage_addWalletTransaction walletId
                                 \<lparr> it_transactionType = ''debit'',
                                   it_amount = iw_amount withdrawal,
                                   it_currency = Some (or_else (iw_currency withdrawal) ''USD''),
                                   it_description =
                                     Some (''Withdrawal via '' @ iw_withdrawalMethod withdrawal),
                                   it_referenceId = None, it_sourceType = Some ''withdrawal'',
                                   it_sourceId = Some (ww_id walletWithdrawal),
                                   it_status = Some ''pending'', it_metadata = None \<rparr>
                                 now st1 of
                            (Inl e, st2) \<Rightarrow> (Inl e, st2)
                          | (Inr _, st2) \<Rightarrow> (Inr walletWithdrawal, st2))
                 else (Inl NumericOverflow, refused))
         else (Inl StringTooLong, refused))"




subsection \<open>Users and purchases\<close>

definition DatabaseStorage_getUser :: "nat \<Rightarrow> db \<Rightarrow> User option" where
  "DatabaseStorage_getUser id' st = find (\<lambda>u. u_id u = id') (tbl_users st)"

definition DatabaseStorage_updateUserUsage :: "nat \<Rightarrow> int \<Rightarrow> db \<Rightarrow> (error + unit) \<times> db" where
  "DatabaseStorage_updateUserUsage userId usage st =
     (Inr (),
      st\<lparr> tbl_users :=
             map (\<lambda>u. if u_id u = userId then u\<lparr> u_dailyUsage := usage \<rparr> else u) (tbl_users st) \<rparr>)"



subsection \<open>Referrals\<close>

definition referral_code_text :: "nat \<Rightarrow> Date \<Rightarrow> string" where
  "referral_code_text userId now =
     ''REF'' @ toString10 userId @ toUpperCase (toString36 (getTime now))"

definition DatabaseStorage_createReferralCode ::
  "nat \<Rightarrow> Date \<Rightarrow> db \<Rightarrow> (error + ReferralCode) \<times> db" where
  "DatabaseStorage_createReferralCode userId now st =
     (case find (\<lambda>rc. rc_userId rc = userId) (tbl_referralCodes st) of
        Some existing \<Rightarrow> (Inr existing, st)
      | None \<Rightarrow>
          (let code = referral_code_text userId now;
               referralCode = \<lparr> rc_id = seq_referralCodes st, rc_userId = userId,
                                rc_code = code, rc_isActive = Some True,
                                rc_createdAt = Some now \<rparr>
           in if userId \<notin> set (map u_id (tbl_users st))
                then (Inl ForeignKeyViolation,
                      st\<lparr> seq_referralCodes := Suc (seq_referralCodes st) \<rparr>)
              else if code \<in> set (map rc_code (tbl_referralCodes st))
                then (Inl UniqueViolation,
                      st\<lparr> seq_referralCodes := Suc (seq_referralCodes st) \<rparr>)
              else (Inr referralCode,
                    st\<lparr> tbl_referralCodes := tbl_referralCodes st @ [referralCode],
                         seq_referralCodes := Suc (seq_referralCodes st) \<rparr>)))"

definition DatabaseStorage_getReferralCode :: "nat \<Rightarrow> db \<Rightarrow> ReferralCode option" where
  "DatabaseStorage_getReferralCode userId st =
     find (\<lambda>rc. rc_userId rc = userId) (tbl_referralCodes st)"

text \<open>
  The \<open>commissionAmount\<close> argument is a JavaScript number, stored as the text
  \<open>commissionAmount.toString()\<close>: the model keeps the decimal that text denotes as a
  rational, \<open>None\<close> when the argument is left out. \<open>if (commissionAmount)\<close> is false for a
  missing argument and for zero. The in-memory store keeps the text as it is; the
  database column is \<open>decimal(10, 2)\<close> and the status column \<open>varchar(20)\<close>, and the
  statement is refused, before any row is looked for, when the status or the commission
  does not fit. A \<open>Date\<close> object is always truthy, so \<open>if (conversionDate)\<close> only asks
  whether the argument was given.
\<close>

definition truthy_number :: "rat option \<Rightarrow> bool" where
  "truthy_number n = (case n of None \<Rightarrow> False | Some x \<Rightarrow> x \<noteq> 0)"

definition commission_fits :: "rat option \<Rightarrow> bool" where
  "commission_fits n =
     (if truthy_number n
      then (case n of None \<Rightarrow> True | Some x \<Rightarrow> numeric_fits 10 (numeric_2 x))
      else True)"

definition DatabaseStorage_updateReferralStatus ::
  "nat \<Rightarrow> string \<Rightarrow> Date option \<Rightarrow> rat option \<Rightarrow> db \<Rightarrow> (error + unit) \<times> db" where
  "DatabaseStorage_updateReferralStatus referralId status conversionDate commissionAmount st =
     (if varchar_fits 20 status
      then (if commission_fits commissionAmount
            then (Inr (),
                  st\<lparr> tbl_referrals :=
                         map (\<lambda>r. if r_id r = referralId
                                   then r\<lparr> r_status := Some (varchar 20 status),
                                           r_conversionDate :=
                                             (case conversionDate of
                                                None \<Rightarrow> r_conversionDate r
                                              | Some d \<Rightarrow> Some d),
                                           r_commissionAmount :=
                                             (if truthy_number commissionAmount
                                              then map_option (\<lambda>x. of_int (numeric_2 x) / 100)
                                                     commissionAmount
                                              else r_commissionAmount r) \<rparr>
                                   else r)
                             (tbl_referrals st) \<rparr>)
            else (Inl NumericOverflow, st))
      else (Inl StringTooLong, st))"

section \<open>\<open>MemStorage\<close>\<close>

text \<open>
  The maps of \<open>MemStorage\<close> that the operations below read or write, each a JavaScript
  \<open>Map\<close> kept as the list of its entries in insertion order: \<open>get\<close> is \<open>map_of\<close>,
  \<open>set\<close> is \<open>AList.update\<close> (an existing key keeps its place, a new key goes last), and
  \<open>Array.from(m.values()).find(p)\<close> is \<open>find p\<close> over the values.
  A stored object that the code changes in place is written back under its key.
\<close>

record MemStorage =
  users :: "(nat \<times> User) list"
  digitalProductPurchases :: "(nat \<times> DigitalProductPurchase) list"
  referralCodes :: "(nat \<times> ReferralCode) list"
  referrals :: "(nat \<times> Referral) list"
  currentUserId :: nat
  currentPurchaseId :: nat
  currentReferralCodeId :: nat
  currentReferralId :: nat


text \<open>The test of \<open>updateUserUsage\<close>, \<open>now.getDate() !== lastReset.getDate() || ...\<close>, with
  \<open>||\<close> evaluated left to right.\<close>

definition different_day :: "Date \<Rightarrow> Date \<Rightarrow> bool" where
  "different_day now lastReset =
     (if getDate now \<noteq> getDate lastReset then True
      else if getMonth now \<noteq> getMonth lastReset then True
      else getFullYear now \<noteq> getFullYear lastReset)"

definition MemStorage_updateUserUsage ::
  "nat \<Rightarrow> int \<Rightarrow> Date \<Rightarrow> MemStorage \<Rightarrow> (error + unit) \<times> MemStorage" where
  "MemStorage_updateUserUsage userId usage now st =
     (case map_of (users st) userId of
        None \<Rightarrow> (Inr (), st)
      | Some user \<Rightarrow>
          (let lastReset = u_lastUsageReset user;
               user1 = (if different_day now lastReset
                        then user\<lparr> u_dailyUsage := 0, u_lastUsageReset := now \<rparr>
                        else user);
               user2 = user1\<lparr> u_dailyUsage := usage \<rparr>
           in (Inr (), st\<lparr> users := AList.update userId user2 (users st) \<rparr>)))"



definition MemStorage_createReferralCode ::
  "nat \<Rightarrow> Date \<Rightarrow> MemStorage \<Rightarrow> (error + ReferralCode) \<times> MemStorage" where
  "MemStorage_createReferralCode userId now st =
     (let code = referral_code_text userId now;
          referralCode = \<lparr> rc_id = currentReferralCodeId st, rc_userId = userId,
                           rc_code = code, rc_isActive = Some True,
                           rc_createdAt = Some now \<rparr>
      in (Inr referralCode,
          st\<lparr> currentReferralCodeId := Suc (currentReferralCodeId st),
               referralCodes := AList.update (rc_id referralCode) referralCode
                                  (referralCodes st) \<rparr>))"

definition MemStorage_getReferralCode :: "nat \<Rightarrow> MemStorage \<Rightarrow> ReferralCode option" where
  "MemStorage_getReferralCode userId st =
     find (\<lambda>rc. rc_userId rc = userId \<and> rc_isActive rc = Some True)
          (map snd (referralCodes st))"


section \<open>The community chat of \<open>routes.ts\<close>\<close>

text \<open>
  A WebSocket is named by a number. The server keeps the registry \<open>connectedUsers\<close>
  (a \<open>Map\<close> from the key to the participant, in insertion order), the set
  \<open>welcomeMessagesSent\<close>, and for every connection the variable \<open>userId\<close> of its
  closure (\<open>userId_of\<close>). The model adds what the handlers act on: the \<open>readyState\<close> of every socket,
  the frames handed to open sockets so far (\<open>delivered\<close>, oldest first) and the pending
  \<open>setTimeout\<close> callbacks. A frame sent to a socket that is not open is dropped.
\<close>

datatype ready_state = CONNECTING | OPEN | CLOSING | CLOSED

record ConnectedUser =
  cu_id :: string
  cu_username :: string
  cu_userType :: string
  cu_location :: "string option"
  cu_ws :: nat

record UserInfo =
  ui_id :: string
  ui_username :: string
  ui_userType :: string
  ui_location :: "string option"

text \<open>Frames from the server. A \<open>community_message\<close> carries \<open>id\<close>, \<open>username\<close>,
  \<open>message\<close>, \<open>timestamp\<close> (the \<open>Date\<close> whose ISO text is sent) and \<open>userType\<close>;
  \<open>user_left\<close> carries \<open>userId\<close> and \<open>username\<close>.\<close>

datatype frame =
    community_message string string string Date string
  | user_joined UserInfo
  | users_update "UserInfo list"
  | user_left string string

text \<open>Frames from a client, after \<open>JSON.parse\<close>: \<open>join_community\<close> with its optional
  \<open>username\<close>, \<open>userType\<close> and \<open>location\<close>, \<open>community_message\<close> with its text, or
  any other \<open>type\<close>.\<close>

datatype client_frame =
    join_community_frame "string option" "string option" "string option"
  | community_message_frame string
  | other_frame

datatype timer = second_welcome nat | forget_welcome string

record chat =
  connectedUsers :: "(string \<times> ConnectedUser) list"
  welcomeMessagesSent :: "string list"
  userId_of :: "nat \<Rightarrow> string option"
  readyState :: "nat \<Rightarrow> ready_state"
  delivered :: "(nat \<times> frame) list"
  timers :: "timer list"

definition chat_init :: chat where
  "chat_init = \<lparr> connectedUsers = [], welcomeMessagesSent = [], userId_of = (\<lambda>_. None),
                  readyState = (\<lambda>_. CLOSED), delivered = [], timers = [] \<rparr>"

definition ws_send :: "nat \<Rightarrow> frame \<Rightarrow> chat \<Rightarrow> chat" where
  "ws_send ws f st =
     (if readyState st ws = OPEN then st\<lparr> delivered := delivered st @ [(ws, f)] \<rparr> else st)"

definition ws_close :: "nat \<Rightarrow> chat \<Rightarrow> chat" where
  "ws_close ws st =
     st\<lparr> readyState := (readyState st)(ws := (if readyState st ws = CLOSED then CLOSED else CLOSING)) \<rparr>"

text \<open>\<open>broadcast(message, excludeUserId?)\<close>: every entry whose key is not the excluded
  one and whose socket is open is sent the frame, in the order of the registry.\<close>

definition broadcast :: "frame \<Rightarrow> string option \<Rightarrow> chat \<Rightarrow> chat" where
  "broadcast message excludeUserId st =
     st\<lparr> delivered := delivered st @
            map (\<lambda>(id', user). (cu_ws user, message))
                (filter (\<lambda>(id', user). Some id' \<noteq> excludeUserId \<and>
                                         readyState st (cu_ws user) = OPEN)
                        (connectedUsers st)) \<rparr>"

definition user_info :: "ConnectedUser \<Rightarrow> UserInfo" where
  "user_info u = \<lparr> ui_id = cu_id u, ui_username = cu_username u,
                    ui_userType = cu_userType u, ui_location = cu_location u \<rparr>"

text \<open>The \<open>join_community\<close> case; \<open>rnd\<close> is \<open>Math.floor(Math.random() * 1000)\<close>.\<close>

definition join_community ::
  "nat \<Rightarrow> string option \<Rightarrow> string option \<Rightarrow> string option \<Rightarrow> Date \<Rightarrow> nat \<Rightarrow> chat \<Rightarrow> chat" where
  "join_community ws m_username m_userType m_location now rnd st =
     (let username = or_else m_username (''User'' @ toString10 rnd);
          st1 = st\<lparr> userId_of := (userId_of st)(ws := Some username) \<rparr>;
          st2 = (case find (\<lambda>(existingId, existingUser). cu_username existingUser = username)
                           (connectedUsers st1) of
                   None \<Rightarrow> st1
                 | Some (existingId, existingUser) \<Rightarrow>
                     (ws_close (cu_ws existingUser) st1)
                       \<lparr> connectedUsers := AList.delete existingId (connectedUsers st1) \<rparr>);
          user = \<lparr> cu_id = username, cu_username = username,
                   cu_userType = or_else m_userType ''entrepreneur'',
                   cu_location = m_location, cu_ws = ws \<rparr>;
          st3 = st2\<lparr> connectedUsers := AList.update username user (connectedUsers st2) \<rparr>;
          st4 = (if username \<notin> set (welcomeMessagesSent st3)
                 then (ws_send ws
                         (community_message (toString10 (getTime now)) ''System''
                            ''Hello. Welcome to FindMyBizName.'' now ''supporter'')
                         (st3\<lparr> welcomeMessagesSent := welcomeMessagesSent st3 @ [username] \<rparr>))
                      \<lparr> timers := timers st3 @ [second_welcome ws] \<rparr>
                 else st3);
          st5 = broadcast (user_joined (user_info user)) (Some username) st4
      in ws_send ws (users_update (map (\<lambda>(k, u). user_info u) (connectedUsers st5))) st5)"

text \<open>The \<open>community_message\<close> case.\<close>

definition community_message_case :: "nat \<Rightarrow> string \<Rightarrow> Date \<Rightarrow> chat \<Rightarrow> chat" where
  "community_message_case ws text now st =
     (case userId_of st ws of
        None \<Rightarrow> st
      | Some uid \<Rightarrow>
          if uid = [] then st
          else (case map_of (connectedUsers st) uid of
                  None \<Rightarrow> st
                | Some sender \<Rightarrow>
                    broadcast (community_message (toString10 (getTime now)) (cu_username sender)
                                 text now (cu_userType sender))
                              None st))"

definition on_close :: "nat \<Rightarrow> chat \<Rightarrow> chat" where
  "on_close ws st0 =
     (let st = st0\<lparr> readyState := (readyState st0)(ws := CLOSED) \<rparr>
      in case userId_of st ws of
           None \<Rightarrow> st
         | Some uid \<Rightarrow>
             if uid = [] then st
             else (case map_of (connectedUsers st) uid of
                     None \<Rightarrow> st
                   | Some user \<Rightarrow>
                       broadcast (user_left uid (cu_username user)) None
                         (st\<lparr> connectedUsers := AList.delete uid (connectedUsers st),
                              timers := timers st @ [forget_welcome (cu_username user)] \<rparr>)))"

definition on_error :: "nat \<Rightarrow> chat \<Rightarrow> chat" where
  "on_error ws st =
     (case userId_of st ws of
        None \<Rightarrow> st
      | Some uid \<Rightarrow>
          if uid = [] then st
          else st\<lparr> connectedUsers := AList.delete uid (connectedUsers st) \<rparr>)"

text \<open>A pending timer fires: the second welcome after two seconds, or the removal of
  the welcome marker five minutes after a disconnect.\<close>

definition on_timeout :: "nat \<Rightarrow> Date \<Rightarrow> chat \<Rightarrow> chat" where
  "on_timeout i now st =
     (if i < length (timers st)
      then (let st1 = st\<lparr> timers := take i (timers st) @ drop (Suc i) (timers st) \<rparr>
            in case timers st ! i of
                 second_welcome ws \<Rightarrow>
                   ws_send ws
                     (community_message (toString10 (getTime now + 1)) ''System''
                        ''Be sure to give us some feedback about your experience before leaving.''
                        now ''supporter'')
                     st1
               | forget_welcome username \<Rightarrow>
                   st1\<lparr> welcomeMessagesSent := removeAll username (welcomeMessagesSent st1) \<rparr>)
      else st)"

text \<open>
  The events the server processes: a new connection (its \<open>userId\<close> starts as null), a
  message on a socket (\<open>None\<close> when \<open>JSON.parse\<close> or the access to \<open>type\<close> throws,
  which the handler catches and logs), the close and the error of a socket, and a timer
  firing. Each event is processed with the clock reading and the random number it takes.
\<close>

datatype event =
    connection nat
  | message nat "client_frame option"
  | close nat
  | error nat
  | timeout nat

fun process :: "event \<Rightarrow> Date \<Rightarrow> nat \<Rightarrow> chat \<Rightarrow> chat" where
  "process (connection ws) now rnd st =
     st\<lparr> userId_of := (userId_of st)(ws := None), readyState := (readyState st)(ws := OPEN) \<rparr>"
| "process (message ws None) now rnd st = st"
| "process (message ws (Some (join_community_frame u t l))) now rnd st =
     join_community ws u t l now rnd st"
| "process (message ws (Some (community_message_frame text))) now rnd st =
     community_message_case ws text now st"
| "process (message ws (Some other_frame)) now rnd st = st"
| "process (close ws) now rnd st = on_close ws st"
| "process (error ws) now rnd st = on_error ws st"
| "process (timeout i) now rnd st = on_timeout i now st"

fun run :: "(event \<times> Date \<times> nat) list \<Rightarrow> chat \<Rightarrow> chat" where
  "run [] st = st"
| "run ((e, now, rnd) # es) st = run es (process e now rnd st)"

section \<open>Notions the properties are stated with\<close>

text \<open>
  The balance column of a wallet row (\<open>None\<close> when there is no such row, \<open>Some None\<close>
  when the column is null), the ledger of a wallet (its transactions, oldest first), the
  signed amount of a ledger entry (a \<open>credit\<close> counts positive, anything else is
  subtracted by \<open>addWalletTransaction\<close> and counts negative) and the running sums of a
  ledger.
\<close>

definition stored_balance :: "nat \<Rightarrow> db \<Rightarrow> int option option" where
  "stored_balance walletId st =
     map_option w_balance (find (\<lambda>w. w_id w = walletId) (tbl_digitalWallets st))"

definition ledger :: "nat \<Rightarrow> db \<Rightarrow> WalletTransaction list" where
  "ledger walletId st = filter (\<lambda>t. wt_walletId t = walletId) (tbl_walletTransactions st)"

definition signedAmount :: "WalletTransaction \<Rightarrow> int" where
  "signedAmount t = (if wt_transactionType t = ''credit'' then wt_amount t else - wt_amount t)"

fun running_sums :: "int \<Rightarrow> int list \<Rightarrow> int list" where
  "running_sums acc [] = []"
| "running_sums acc (x # xs) = (acc + x) # running_sums (acc + x) xs"

text \<open>A sequence of \<open>addWalletTransaction\<close> calls, each awaited before the next; a call
  that fails leaves the store as it returns it.\<close>

fun addWalletTransactions :: "(nat \<times> InsertWalletTransaction \<times> Date) list \<Rightarrow> db \<Rightarrow> db" where
  "addWalletTransactions [] st = st"
| "addWalletTransactions ((walletId, transaction, now) # calls) st =
     addWalletTransactions calls
       (snd (DatabaseStorage_addWalletTransaction walletId transaction now st))"

text \<open>
  What the primary keys and the foreign key of \<open>wallet_transactions\<close> guarantee of a
  database: every wallet id was drawn from the sequence, and every transaction belongs to
  a wallet row.
\<close>

definition db_consistent :: "db \<Rightarrow> bool" where
  "db_consistent st \<longleftrightarrow>
     set (map w_id (tbl_digitalWallets st)) \<subseteq> {..< seq_digitalWallets st} \<and>
     set (map wt_walletId (tbl_walletTransactions st)) \<subseteq> set (map w_id (tbl_digitalWallets st))"

text \<open>An amount with at most two fractional digits, and a wallet whose balance has
  fewer than 15 digits, as every balance written to the column has.\<close>

definition whole_cents :: "rat \<Rightarrow> bool" where
  "whole_cents x \<longleftrightarrow> of_int \<lfloor>x * 100\<rfloor> = x * 100"

definition balance_fits :: "nat \<Rightarrow> db \<Rightarrow> bool" where
  "balance_fits walletId st \<longleftrightarrow> numeric_fits 15 (DatabaseStorage_getWalletBalance walletId st)"



definition ledger_agrees :: "nat \<Rightarrow> db \<Rightarrow> bool" where
  "ledger_agrees walletId st \<longleftrightarrow>
     stored_balance walletId st = Some (Some (sum_list (map signedAmount (ledger walletId st)))) \<and>
     map wt_balanceAfter (ledger walletId st) =
       running_sums 0 (map signedAmount (ledger walletId st))"


text \<open>The entries of the registry that belong to a username, and the shape every
  registry built by the handlers has: the keys of the map are distinct, and every
  participant is stored under its own username.\<close>

definition entries_for :: "string \<Rightarrow> chat \<Rightarrow> (string \<times> ConnectedUser) list" where
  "entries_for name st = filter (\<lambda>(k, u). cu_username u = name) (connectedUsers st)"

definition registry_keyed :: "chat \<Rightarrow> bool" where
  "registry_keyed st \<longleftrightarrow>
     distinct (map fst (connectedUsers st)) \<and>
     list_all (\<lambda>(k, u). cu_username u = k) (connectedUsers st)"

text \<open>Concrete inputs for the examples below.\<close>

definition demo_date :: Date where
  "demo_date = \<lparr> getTime = 1700000000000, getFullYear = 2023, getMonth = 10, getDate = 14 \<rparr>"

definition demo_user :: User where
  "demo_user = \<lparr> u_id = 1, u_username = ''demo_user'', u_email = ''demo@example.com'',
                  u_plan = ''starter'', u_dailyUsage = 3, u_lastUsageReset = demo_date,
                  u_brandAnalysisUsage = 0, u_nameImprovementUsage = 0,
                  u_stripeCustomerId = None, u_stripeSubscriptionId = None,
                  u_createdAt = demo_date \<rparr>"

definition demo_db :: db where
  "demo_db = \<lparr> tbl_users = [demo_user], tbl_digitalProductPurchases = [],
                tbl_referralCodes = [], tbl_referrals = [], tbl_digitalWallets = [],
                tbl_walletTransactions = [], tbl_walletWithdrawals = [],
                seq_referralCodes = 1, seq_digitalWallets = 1, seq_walletTransactions = 1,
                seq_walletWithdrawals = 1 \<rparr>"

definition demo_wallet :: DigitalWallet where
  "demo_wallet = \<lparr> w_id = 1, w_userId = 1, w_walletAddress = ''FMBN1PERSONALLOYW3V28'',
                    w_walletType = ''personal'', w_balance = Some 0, w_currency = Some ''USD'',
                    w_isActive = Some True, w_lastTransactionAt = None,
                    w_createdAt = Some demo_date, w_updatedAt = Some demo_date \<rparr>"

definition demo_db1 :: db where
  "demo_db1 = demo_db\<lparr> tbl_digitalWallets := [demo_wallet], seq_digitalWallets := 2 \<rparr>"

definition demo_transaction :: "string \<Rightarrow> rat \<Rightarrow> InsertWalletTransaction" where
  "demo_transaction ty a =
     \<lparr> it_transactionType = ty, it_amount = a, it_currency = Some ''USD'',
       it_description = None, it_referenceId = None, it_sourceType = Some ''deposit'',
       it_sourceId = None, it_status = Some ''completed'', it_metadata = None \<rparr>"

definition demo_calls :: "(nat \<times> InsertWalletTransaction \<times> Date) list" where
  "demo_calls = [(1, demo_transaction ''credit'' 100, demo_date),
                 (1, demo_transaction ''debit'' 25, demo_date)]"

definition demo_withdrawal :: InsertWalletWithdrawal where
  "demo_withdrawal =
     \<lparr> iw_amount = 100, iw_currency = Some ''USD'', iw_withdrawalMethod = ''paypal'',
       iw_withdrawalDetails = None, iw_status = None, iw_processedAt = None,
       iw_transactionFee = Some (5 / 2), iw_externalTransactionId = None, iw_notes = None \<rparr>"


definition demo_referral :: Referral where
  "demo_referral = \<lparr> r_id = 4, r_referrerId = 1, r_refereeId = 2,
                      r_referralCode = ''REF1LOYW3V28'', r_status = Some ''pending'',
                      r_conversionDate = None, r_commissionAmount = Some (3 / 2),
                      r_currency = Some ''USD'', r_createdAt = Some demo_date \<rparr>"

definition demo_mem :: MemStorage where
  "demo_mem = \<lparr> users = [(1, demo_user)], digitalProductPurchases = [], referralCodes = [],
                 referrals = [(4, demo_referral)], currentUserId = 2, currentPurchaseId = 1,
                 currentReferralCodeId = 1, currentReferralId = 5 \<rparr>"


definition demo_later :: Date where
  "demo_later = \<lparr> getTime = 1700000000001, getFullYear = 2023, getMonth = 10, getDate = 14 \<rparr>"

definition demo_tomorrow :: Date where
  "demo_tomorrow = \<lparr> getTime = 1700086400000, getFullYear = 2023, getMonth = 10, getDate = 15 \<rparr>"

definition demo_alice :: "nat \<Rightarrow> ConnectedUser" where
  "demo_alice ws = \<lparr> cu_id = ''Alice'', cu_username = ''Alice'', cu_userType = ''entrepreneur'',
                      cu_location = None, cu_ws = ws \<rparr>"

definition demo_bob :: "nat \<Rightarrow> ConnectedUser" where
  "demo_bob ws = \<lparr> cu_id = ''Bob'', cu_username = ''Bob'', cu_userType = ''supporter'',
                    cu_location = Some ''Trinidad'', cu_ws = ws \<rparr>"

definition demo_trace :: "(event \<times> Date \<times> nat) list" where
  "demo_trace =
     [(connection 1, demo_date, 0),
      (message 1 (Some (join_community_frame (Some ''Alice'') None None)), demo_date, 0),
      (connection 2, demo_date, 0)]"

definition demo_trace2 :: "(event \<times> Date \<times> nat) list" where
  "demo_trace2 =
     [(connection 1, demo_date, 0),
      (message 1 (Some (join_community_frame (Some ''Alice'') None None)), demo_date, 0),
      (connection 2, demo_date, 0),
      (message 2 (Some (join_community_frame (Some ''Bob'') (Some ''supporter'')
                          (Some ''Trinidad''))), demo_date, 0),
      (connection 7, demo_date, 0)]"

definition demo_hello :: frame where
  "demo_hello = community_message ''1700000000001'' ''Alice'' ''hello'' demo_later ''entrepreneur''"


section \<open>Lookups in tables\<close>

lemma find_map_update:
  assumes "\<And>x. key (f x) = key x"
  shows "find (\<lambda>x. key x = k) (map (\<lambda>x. if key x = k then f x else x) xs) =
         map_option f (find (\<lambda>x. key x = k) xs)"
  using assms by (induction xs) auto

lemma find_map_other:
  assumes "k \<noteq> k'" and "\<And>x. key (f x) = key x"
  shows "find (\<lambda>x. key x = k) (map (\<lambda>x. if key x = k' then f x else x) xs) =
         find (\<lambda>x. key x = k) xs"
  using assms by (induction xs) auto


lemma find_append_fresh: "\<forall>x \<in> set xs. \<not> P x \<Longrightarrow> P y \<Longrightarrow> find P (xs @ [y]) = Some y"
  by (induction xs) auto

lemma demo_base36: "toUpperCase (toString36 1700000000000) = ''LOYW3V28''"
  by (simp add: toString36.simps toUpperCase_def toUpperCase_char_def digit_char_def)

lemma demo_wallet_type: "toUpperCase ''personal'' = ''PERSONAL''"
  by (simp add: toUpperCase_def toUpperCase_char_def)

lemma demo_createWallet:
  "DatabaseStorage_createWallet 1 ''personal'' demo_date demo_db = (Inr demo_wallet, demo_db1)"
  by (simp add: DatabaseStorage_createWallet_def demo_date_def demo_db_def demo_db1_def
      demo_wallet_def demo_user_def demo_base36 demo_wallet_type toString10.simps
      digit_char_def Let_def varchar_def varchar_fits_def)

section \<open>Rounding to doubles\<close>

text \<open>The floor of a quotient of numerals, for evaluating \<open>fl\<close> on concrete decimals.\<close>

lemma floor_rat_numeral [simp]:
  "\<lfloor>numeral a / numeral b :: rat\<rfloor> = numeral a div numeral b"
  by (metis floor_divide_of_int_eq of_int_numeral)

lemma floor_rat_minus_numeral [simp]:
  "\<lfloor>- (numeral a / numeral b) :: rat\<rfloor> = - numeral a div numeral b"
  by (metis divide_minus_left floor_divide_of_int_eq of_int_neg_numeral of_int_numeral)

text \<open>
  Rounding to a double moves a value by at most the fraction \<open>2^-53\<close> of its magnitude
  (or by \<open>2^-1075\<close> among the subnormal numbers). For decimals with two fractional
  digits and fewer than 15 digits in all, the sum and the difference computed in doubles
  and printed by \<open>toFixed(2)\<close> are therefore the exact sum and difference.
\<close>

lemma rne_error: "\<bar>of_int (rne y) - y\<bar> \<le> 1 / 2"
proof -
  have "of_int \<lfloor>y\<rfloor> \<le> y" "y < of_int \<lfloor>y\<rfloor> + 1" by linarith+
  then show ?thesis unfolding rne_def Let_def by (auto simp: abs_le_iff)
qed


lemma scale_up_props:
  "0 < p \<Longrightarrow> p \<le> scale_up k ax p \<and> (2 ^ 52 \<le> ax * scale_up k ax p \<or> scale_up k ax p = p * 2 ^ k)"
proof (induction k ax p rule: scale_up.induct)
  case (1 k ax p)
  show ?case
  proof (cases "k = 0 \<or> 2 ^ 52 \<le> ax * p")
    case True
    then show ?thesis by (auto simp: scale_up.simps [of k ax p])
  next
    case False
    then have k: "k \<noteq> 0" by simp
    from "1.prems" have "0 < p * 2" by simp
    from "1.IH" [OF False this]
    have ih: "p * 2 \<le> scale_up (k - 1) ax (p * 2)"
      "2 ^ 52 \<le> ax * scale_up (k - 1) ax (p * 2) \<or> scale_up (k - 1) ax (p * 2) = p * 2 * 2 ^ (k - 1)"
      by auto
    have pw: "(2::rat) * 2 ^ (k - 1) = 2 ^ k"
      using k by (cases k) auto
    have eq: "scale_up k ax p = scale_up (k - 1) ax (p * 2)"
      using False by (simp add: scale_up.simps [of k ax p])
    from ih "1.prems" pw show ?thesis
      unfolding eq by (auto simp: mult.assoc)
  qed
qed

lemma scale_down_props:
  "0 < p \<Longrightarrow> 2 ^ 52 * p \<le> ax \<Longrightarrow> 0 < scale_down k ax p \<and> 2 ^ 52 * scale_down k ax p \<le> ax"
proof (induction k ax p rule: scale_down.induct)
  case (1 k ax p)
  show ?case
  proof (cases "k = 0 \<or> ax / p < 2 ^ 53")
    case True
    then show ?thesis using "1.prems" by (auto simp: scale_down.simps [of k ax p])
  next
    case False
    then have big: "2 ^ 53 \<le> ax / p" by simp
    with "1.prems"(1) have "2 ^ 53 * p \<le> ax"
      by (simp add: pos_le_divide_eq)
    then have a: "2 ^ 52 * (p * 2) \<le> ax" by simp
    from "1.prems"(1) have b: "0 < p * 2" by simp
    have eq: "scale_down k ax p = scale_down (k - 1) ax (p * 2)"
      using False by (simp add: scale_down.simps [of k ax p])
    from "1.IH" [OF False b a] show ?thesis unfolding eq .
  qed
qed

lemma fl_error: "\<bar>fl x - x\<bar> \<le> \<bar>x\<bar> / 2 ^ 53 \<or> \<bar>fl x - x\<bar> \<le> 1 / 2 ^ 1075"
proof (cases "x = 0")
  case True
  then show ?thesis by (simp add: fl_def)
next
  case nz: False
  show ?thesis
  proof (cases "2 ^ 53 \<le> \<bar>x\<bar>")
    case True
    define p where "p = scale_down 971 \<bar>x\<bar> 1"
    have "2 ^ 52 * 1 \<le> \<bar>x\<bar>" using True by simp
    from scale_down_props [OF _ this, of 971] have p: "0 < p" "2 ^ 52 * p \<le> \<bar>x\<bar>"
      by (simp_all add: p_def)
    have fl: "fl x = of_int (rne (x / p)) * p"
      using nz True by (simp add: fl_def p_def Let_def)
    have "fl x - x = (of_int (rne (x / p)) - x / p) * p"
      using p(1) unfolding fl by (simp add: field_simps)
    then have "\<bar>fl x - x\<bar> = \<bar>of_int (rne (x / p)) - x / p\<bar> * p"
      using p(1) by (simp add: abs_mult)
    also have "\<dots> \<le> 1 / 2 * p"
      using rne_error [of "x / p"] p(1) by (intro mult_right_mono) auto
    also have "\<dots> \<le> \<bar>x\<bar> / 2 ^ 53"
      using p(2) by simp
    finally show ?thesis by simp
  next
    case False
    define p where "p = scale_up 1074 \<bar>x\<bar> 1"
    from scale_up_props [of 1 1074 "\<bar>x\<bar>"]
    have p: "1 \<le> p" "2 ^ 52 \<le> \<bar>x\<bar> * p \<or> p = 2 ^ 1074"
      by (simp_all add: p_def)
    then have p0: "0 < p" by simp
    have fl: "fl x = of_int (rne (x * p)) / p"
      using nz False by (simp add: fl_def p_def Let_def)
    have "fl x - x = (of_int (rne (x * p)) - x * p) / p"
      using p0 unfolding fl by (simp add: field_simps)
    then have "\<bar>fl x - x\<bar> = \<bar>of_int (rne (x * p)) - x * p\<bar> / p"
      using p0 by simp
    also have "\<dots> \<le> (1 / 2) / p"
      using rne_error [of "x * p"] p0 by (intro divide_right_mono) auto
    finally have e: "\<bar>fl x - x\<bar> \<le> 1 / (2 * p)" by simp
    from p(2) show ?thesis
    proof
      assume "2 ^ 52 \<le> \<bar>x\<bar> * p"
      then have "1 / (2 * p) \<le> \<bar>x\<bar> / 2 ^ 53"
        using p0 by (simp add: field_simps)
      with e show ?thesis by simp
    next
      assume "p = 2 ^ 1074"
      with e show ?thesis by simp
    qed
  qed
qed

lemma fl_close: "\<bar>fl x - x\<bar> \<le> \<bar>x\<bar> / 2 ^ 53 + 1 / 2 ^ 60"
proof -
  have "(1::rat) / 2 ^ 1075 \<le> 1 / 2 ^ 60"
    by (intro divide_left_mono power_increasing) auto
  moreover have "0 \<le> \<bar>x\<bar> / 2 ^ 53" by simp
  moreover have "(0::rat) \<le> 1 / 2 ^ 60" by simp
  ultimately show ?thesis using fl_error [of x] by linarith
qed

lemma round_hundredths_unique:
  assumes "\<bar>y - of_int k / 100\<bar> < 1 / 200"
  shows "round_hundredths y = k"
proof -
  from assms have "y - of_int k / 100 < 1 / 200" "- (y - of_int k / 100) < 1 / 200"
    by linarith+
  then have b: "of_int k - 1 / 2 < y * 100" "y * 100 < of_int k + 1 / 2"
    by linarith+
  show ?thesis
  proof (cases "0 \<le> y")
    case True
    have "\<lfloor>y * 100 + 1 / 2\<rfloor> = k"
      using b by (intro floor_unique) auto
    with True show ?thesis by (simp add: round_hundredths_def)
  next
    case False
    have "\<lfloor>- y * 100 + 1 / 2\<rfloor> = - k"
      using b by (intro floor_unique) auto
    with False show ?thesis by (simp add: round_hundredths_def)
  qed
qed

lemma fl_cents_close:
  assumes "\<bar>a\<bar> < 10 ^ 15"
  shows "\<bar>fl (of_int a / 100) - of_int a / 100\<bar> \<le> 10 ^ 13 / 2 ^ 53 + 1 / 2 ^ 60"
proof -
  from assms have "\<bar>of_int a :: rat\<bar> < 10 ^ 15"
    by (metis of_int_abs of_int_less_iff of_int_numeral of_int_power)
  then have "\<bar>of_int a / 100 :: rat\<bar> \<le> 10 ^ 13" by simp
  then have "\<bar>of_int a / 100 :: rat\<bar> / 2 ^ 53 \<le> 10 ^ 13 / 2 ^ 53"
    by (intro divide_right_mono) auto
  with fl_close [of "of_int a / 100"] show ?thesis by linarith
qed

lemma exact_hundredths:
  assumes "\<bar>a\<bar> < 10 ^ 15" and "\<bar>b\<bar> < 10 ^ 15"
  shows "round_hundredths (fl (fl (of_int b / 100) + fl (of_int a / 100))) = b + a"
    and "round_hundredths (fl (fl (of_int b / 100) - fl (of_int a / 100))) = b - a"
proof -
  define x where "x = (of_int a / 100 :: rat)"
  define y where "y = (of_int b / 100 :: rat)"
  define e where "e = (10 ^ 13 / 2 ^ 53 + 1 / 2 ^ 60 :: rat)"
  have ex: "\<bar>fl x - x\<bar> \<le> e" and ey: "\<bar>fl y - y\<bar> \<le> e"
    using fl_cents_close [OF assms(1)] fl_cents_close [OF assms(2)] by (simp_all add: x_def y_def e_def)
  have bndx: "\<bar>x\<bar> \<le> 10 ^ 13" and bndy: "\<bar>y\<bar> \<le> 10 ^ 13"
  proof -
    from assms have "\<bar>of_int a :: rat\<bar> < 10 ^ 15" "\<bar>of_int b :: rat\<bar> < 10 ^ 15"
      by (metis of_int_abs of_int_less_iff of_int_numeral of_int_power)+
    then show "\<bar>x\<bar> \<le> 10 ^ 13" "\<bar>y\<bar> \<le> 10 ^ 13" by (simp_all add: x_def y_def)
  qed
  have tot: "\<bar>fl s - t\<bar> < 1 / 200"
    if s: "\<bar>s - t\<bar> \<le> 2 * e" and t: "\<bar>t\<bar> \<le> 2 * 10 ^ 13" for s t
  proof -
    have "\<bar>s\<bar> \<le> 2 * 10 ^ 13 + 2 * e" using s t by linarith
    then have "\<bar>s\<bar> / 2 ^ 53 \<le> (2 * 10 ^ 13 + 2 * e) / 2 ^ 53"
      by (intro divide_right_mono) auto
    with fl_close [of s] have "\<bar>fl s - s\<bar> \<le> (2 * 10 ^ 13 + 2 * e) / 2 ^ 53 + 1 / 2 ^ 60"
      by linarith
    then have "\<bar>fl s - t\<bar> \<le> 2 * e + (2 * 10 ^ 13 + 2 * e) / 2 ^ 53 + 1 / 2 ^ 60"
      using s by linarith
    also have "\<dots> < 1 / 200" by (simp add: e_def)
    finally show ?thesis .
  qed
  have "\<bar>fl (fl y + fl x) - (y + x)\<bar> < 1 / 200"
    using ex ey bndx bndy by (intro tot) linarith+
  then have "\<bar>fl (fl y + fl x) - of_int (b + a) / 100\<bar> < 1 / 200"
    by (simp add: x_def y_def add_divide_distrib)
  then show "round_hundredths (fl (fl (of_int b / 100) + fl (of_int a / 100))) = b + a"
    unfolding x_def y_def by (rule round_hundredths_unique)
  have "\<bar>fl (fl y - fl x) - (y - x)\<bar> < 1 / 200"
    using ex ey bndx bndy by (intro tot) linarith+
  then have "\<bar>fl (fl y - fl x) - of_int (b - a) / 100\<bar> < 1 / 200"
    by (simp add: x_def y_def diff_divide_distrib)
  then show "round_hundredths (fl (fl (of_int b / 100) - fl (of_int a / 100))) = b - a"
    unfolding x_def y_def by (rule round_hundredths_unique)
qed

section \<open>The wallet ledger\<close>

lemma whole_cents_hundredths:
  assumes "whole_cents x"
  shows "x = of_int \<lfloor>x * 100\<rfloor> / 100"
proof -
  from assms have "of_int \<lfloor>x * 100\<rfloor> = x * 100"
    unfolding whole_cents_def .
  then show ?thesis by linarith
qed

lemma running_sums_append:
  "running_sums acc (xs @ [x]) = running_sums acc xs @ [acc + sum_list xs + x]"
  by (induction xs arbitrary: acc) (auto simp: algebra_simps)

lemma round_hundredths_of_hundredths [simp]: "round_hundredths (of_int a / 100) = a"
  by (rule round_hundredths_unique) simp

lemma varchar_credit: "varchar 20 s = ''credit'' \<longleftrightarrow> s = ''credit''"
proof
  assume a: "varchar 20 s = ''credit''"
  then have "length (take 20 s) = 6" by (simp add: varchar_def)
  then have "length s = 6" by (simp add: min_def split: if_splits)
  with a show "s = ''credit''" by (simp add: varchar_def)
qed (simp add: varchar_def)

text \<open>What \<open>addWalletTransaction\<close> computes for an amount of whole cents \<open>a / 100\<close> on a
  balance of \<open>B / 100\<close>, both of fewer than 15 digits.\<close>

lemma new_balance_exact:
  assumes "numeric_fits 15 B" and "numeric_fits 15 a"
  shows "toFixed2 (fl (parseFloat (of_int B / 100) + parseFloat (of_int a / 100))) = B + a"
    and "toFixed2 (fl (parseFloat (of_int B / 100) - parseFloat (of_int a / 100))) = B - a"
  using assms exact_hundredths [of a B]
  by (simp_all add: toFixed2_def parseFloat_def numeric_fits_def)

lemma addWalletTransaction_refused:
  assumes "DatabaseStorage_addWalletTransaction walletId tx now st = (Inl e, st')"
  shows "tbl_walletTransactions st' = tbl_walletTransactions st"
    and "tbl_digitalWallets st' = tbl_digitalWallets st"
    and "seq_digitalWallets st' = seq_digitalWallets st"
  using assms
  by (auto simp: DatabaseStorage_addWalletTransaction_def Let_def split: if_splits)

lemma addWalletTransaction_accepted:
  assumes "DatabaseStorage_addWalletTransaction walletId tx now st = (Inr t, st')"
  shows "tbl_walletTransactions st' = tbl_walletTransactions st @ [t]"
    and "tbl_digitalWallets st' =
           map (\<lambda>w. if w_id w = walletId
                     then w\<lparr> w_balance := Some (wt_balanceAfter t),
                             w_lastTransactionAt := Some now, w_updatedAt := Some now \<rparr>
                     else w)
               (tbl_digitalWallets st)"
    and "seq_digitalWallets st' = seq_digitalWallets st"
    and "wt_walletId t = walletId"
    and "wt_amount t = numeric_2 (it_amount tx)"
    and "wt_transactionType t = varchar 20 (it_transactionType tx)"
    and "walletId \<in> set (map w_id (tbl_digitalWallets st))"
    and "numeric_fits 15 (numeric_2 (it_amount tx))"
    and "numeric_fits 15 (wt_balanceAfter t)"
    and "wt_balanceAfter t =
           toFixed2 (if it_transactionType tx = ''credit''
                     then fl (parseFloat (of_int (DatabaseStorage_getWalletBalance walletId st) / 100) +
                              parseFloat (it_amount tx))
                     else fl (parseFloat (of_int (DatabaseStorage_getWalletBalance walletId st) / 100) -
                              parseFloat (it_amount tx)))"
  using assms
  by (auto simp: DatabaseStorage_addWalletTransaction_def Let_def split: if_splits)

lemma addWalletTransaction_ledger_agrees:
  assumes inv: "ledger_agrees k st" "balance_fits k st"
    and cents: "whole_cents (it_amount tx)"
  shows "ledger_agrees k (snd (DatabaseStorage_addWalletTransaction walletId tx now st)) \<and>
         balance_fits k (snd (DatabaseStorage_addWalletTransaction walletId tx now st))"
proof (cases "DatabaseStorage_addWalletTransaction walletId tx now st")
  case (Pair res st')
  show ?thesis
  proof (cases res)
    case (Inl e)
    from addWalletTransaction_refused [OF Pair [unfolded Inl]] inv
    show ?thesis
      by (simp add: Pair ledger_agrees_def balance_fits_def stored_balance_def ledger_def
          DatabaseStorage_getWalletBalance_def)
  next
    case (Inr t)
    note acc = addWalletTransaction_accepted [OF Pair [unfolded Inr]]
    show ?thesis
    proof (cases "walletId = k")
      case other: False
      then have "find (\<lambda>w. w_id w = k) (tbl_digitalWallets st') =
                 find (\<lambda>w. w_id w = k) (tbl_digitalWallets st)"
        unfolding acc(2) by (intro find_map_other) auto
      with inv other acc(1,4) show ?thesis
        by (simp add: Pair ledger_agrees_def balance_fits_def stored_balance_def ledger_def
            DatabaseStorage_getWalletBalance_def)
    next
      case same: True
      define B where "B = DatabaseStorage_getWalletBalance k st"
      define a where "a = \<lfloor>it_amount tx * 100\<rfloor>"
      have amt: "it_amount tx = of_int a / 100"
        using cents unfolding a_def by (rule whole_cents_hundredths)
      have stored: "wt_amount t = a"
        using acc(5) by (simp add: amt numeric_2_def)
      have fa: "numeric_fits 15 a"
        using acc(8) by (simp add: amt numeric_2_def)
      have fB: "numeric_fits 15 B"
        using inv(2) by (simp add: B_def balance_fits_def)
      have sum: "B = sum_list (map signedAmount (ledger k st))"
        using inv(1)
        by (auto simp: B_def ledger_agrees_def stored_balance_def DatabaseStorage_getWalletBalance_def)
      have after: "wt_balanceAfter t = B + signedAmount t"
        using acc(10) new_balance_exact [OF fB fa] stored
        by (simp add: same B_def [symmetric] amt signedAmount_def acc(6) varchar_credit)
      have row: "find (\<lambda>w. w_id w = k) (tbl_digitalWallets st') =
                 map_option (\<lambda>w. w\<lparr> w_balance := Some (wt_balanceAfter t),
                                      w_lastTransactionAt := Some now, w_updatedAt := Some now \<rparr>)
                            (find (\<lambda>w. w_id w = k) (tbl_digitalWallets st))"
        unfolding acc(2) same by (intro find_map_update) auto
      have ex: "find (\<lambda>w. w_id w = k) (tbl_digitalWallets st) \<noteq> None"
        using inv(1) by (auto simp: ledger_agrees_def stored_balance_def)
      have led: "ledger k st' = ledger k st @ [t]"
        using acc(1,4) same by (simp add: ledger_def)
      have bal: "stored_balance k st' = Some (Some (wt_balanceAfter t))"
        using ex by (auto simp: stored_balance_def row)
      have "ledger_agrees k st'"
        using inv(1) by (simp add: ledger_agrees_def led bal after sum running_sums_append)
      moreover have "balance_fits k st'"
        using ex acc(9)
        by (auto simp: balance_fits_def DatabaseStorage_getWalletBalance_def row)
      ultimately show ?thesis by (simp add: Pair)
    qed
  qed
qed

lemma addWalletTransactions_ledger_agrees:
  "ledger_agrees k st \<Longrightarrow> balance_fits k st \<Longrightarrow>
   list_all (\<lambda>(walletId, tx, now). whole_cents (it_amount tx)) calls \<Longrightarrow>
   ledger_agrees k (addWalletTransactions calls st)"
proof (induction calls arbitrary: st)
  case Nil
  then show ?case by simp
next
  case (Cons c calls)
  obtain walletId tx now where c: "c = (walletId, tx, now)" by (cases c)
  from Cons.prems c have "whole_cents (it_amount tx)" by simp
  from addWalletTransaction_ledger_agrees [OF Cons.prems(1,2) this, of walletId now]
  show ?case
    using Cons.IH Cons.prems(3) by (simp add: c)
qed

lemma createWallet_ledger_agrees:
  assumes "db_consistent st"
    and "DatabaseStorage_createWallet userId walletType now st = (Inr wallet, st1)"
  shows "ledger_agrees (w_id wallet) st1" and "balance_fits (w_id wallet) st1"
proof -
  from assms(2) have w: "w_id wallet = seq_digitalWallets st"
    and st1: "tbl_digitalWallets st1 = tbl_digitalWallets st @ [wallet]"
             "tbl_walletTransactions st1 = tbl_walletTransactions st"
    and b: "w_balance wallet = Some 0"
    by (auto simp: DatabaseStorage_createWallet_def Let_def split: if_splits)
  from assms(1) have fresh: "\<forall>x \<in> set (tbl_digitalWallets st). w_id x \<noteq> seq_digitalWallets st"
    by (auto simp: db_consistent_def)
  from assms(1) have "\<forall>t \<in> set (tbl_walletTransactions st). wt_walletId t \<noteq> seq_digitalWallets st"
    unfolding db_consistent_def by fastforce
  then have "ledger (w_id wallet) st1 = []"
    by (simp add: ledger_def w st1 filter_empty_conv)
  moreover have f: "find (\<lambda>x. w_id x = w_id wallet) (tbl_digitalWallets st1) = Some wallet"
    unfolding st1 w[symmetric] using fresh w by (intro find_append_fresh) auto
  ultimately show "ledger_agrees (w_id wallet) st1"
    by (simp add: ledger_agrees_def stored_balance_def b)
  show "balance_fits (w_id wallet) st1"
    by (simp add: balance_fits_def DatabaseStorage_getWalletBalance_def f b numeric_fits_def)
qed

text \<open>The consistency assumed of the database is kept by the wallet operations.\<close>

lemma db_consistent_createWallet:
  "db_consistent st \<Longrightarrow> db_consistent (snd (DatabaseStorage_createWallet userId walletType now st))"
  by (auto simp: db_consistent_def DatabaseStorage_createWallet_def Let_def less_Suc_eq)

lemma map_w_id_update:
  assumes "\<And>w. w_id (f w) = w_id w"
  shows "map w_id (map (\<lambda>w. if w_id w = k then f w else w) ws) = map w_id ws"
  using assms by (induction ws) auto

lemma db_consistent_addWalletTransaction:
  assumes "db_consistent st"
  shows "db_consistent (snd (DatabaseStorage_addWalletTransaction walletId tx now st))"
proof (cases "DatabaseStorage_addWalletTransaction walletId tx now st")
  case (Pair res st')
  show ?thesis
  proof (cases res)
    case (Inl e)
    from addWalletTransaction_refused [OF Pair [unfolded Inl]] assms
    show ?thesis by (simp add: Pair db_consistent_def)
  next
    case (Inr t)
    note acc = addWalletTransaction_accepted [OF Pair [unfolded Inr]]
    have ids: "map w_id (tbl_digitalWallets st') = map w_id (tbl_digitalWallets st)"
      unfolding acc(2) by (rule map_w_id_update) simp
    from assms acc(7) show ?thesis
      by (simp add: Pair db_consistent_def ids acc(1,3,4))
  qed
qed

text \<open>
  For amounts of whole cents the ledger and the balance agree: after \<open>createWallet\<close> in
  a consistent database and any sequence of \<open>addWalletTransaction\<close> calls whose amounts
  have at most two fractional digits, the stored balance of the wallet is the sum of the
  signed amounts of its ledger, and every \<open>balanceAfter\<close> is the running sum.
\<close>

lemma ledger_sum_for_whole_cents:
  assumes "db_consistent st"
    and "DatabaseStorage_createWallet userId walletType now st = (Inr wallet, st1)"
    and "list_all (\<lambda>(walletId, tx, now). whole_cents (it_amount tx)) calls"
    and "st2 = addWalletTransactions calls st1"
  shows "stored_balance (w_id wallet) st2 =
           Some (Some (sum_list (map signedAmount (ledger (w_id wallet) st2)))) \<and>
         map wt_balanceAfter (ledger (w_id wallet) st2) =
           running_sums 0 (map signedAmount (ledger (w_id wallet) st2))"
  using addWalletTransactions_ledger_agrees
          [OF createWallet_ledger_agrees [OF assms(1,2)] assms(3)] assms(4)
  by (simp add: ledger_agrees_def)


lemma demo_ledger:
  "map signedAmount (ledger (w_id demo_wallet) (addWalletTransactions demo_calls demo_db1)) =
   [10000, - 2500]"
  apply (simp add: demo_calls_def demo_db1_def demo_db_def demo_wallet_def demo_transaction_def
      DatabaseStorage_addWalletTransaction_def DatabaseStorage_getWalletBalance_def
      or_default_def varchar_def varchar_fits_def varchar_fits_opt_def numeric_2_def
      numeric_fits_def)
  apply (simp add: Let_def parseFloat_def fl_def scale_up.simps rne_def toFixed2_def
      round_hundredths_def numeric_2_def numeric_fits_def varchar_def varchar_fits_def
      varchar_fits_opt_def ledger_def signedAmount_def)
  done

lemma ledger_sum_for_whole_cents_example:
  "stored_balance (w_id demo_wallet) (addWalletTransactions demo_calls demo_db1) =
     Some (Some 7500) \<and>
   map wt_balanceAfter (ledger (w_id demo_wallet) (addWalletTransactions demo_calls demo_db1)) =
     [10000, 7500]"
proof -
  have h1: "db_consistent demo_db"
    by (simp add: db_consistent_def demo_db_def)
  have h3: "list_all (\<lambda>(walletId, tx, now). whole_cents (it_amount tx)) demo_calls"
    by (simp add: demo_calls_def demo_transaction_def whole_cents_def)
  show ?thesis
    using ledger_sum_for_whole_cents [OF h1 demo_createWallet h3 refl]
    by (simp add: demo_ledger)
qed

lemma demo_credit:
  "map_sum id (\<lambda>t. (wt_amount t, wt_balanceAfter t))
     (fst (DatabaseStorage_addWalletTransaction (w_id demo_wallet)
             (demo_transaction ''credit'' (201 / 200)) demo_later demo_db1)) = Inr (101, 100)"
  "stored_balance (w_id demo_wallet)
     (snd (DatabaseStorage_addWalletTransaction (w_id demo_wallet)
             (demo_transaction ''credit'' (201 / 200)) demo_later demo_db1)) = Some (Some 100)"
  "map signedAmount (ledger (w_id demo_wallet)
     (snd (DatabaseStorage_addWalletTransaction (w_id demo_wallet)
             (demo_transaction ''credit'' (201 / 200)) demo_later demo_db1))) = [101]"
  apply (simp_all add: demo_db1_def demo_db_def demo_wallet_def demo_transaction_def
      DatabaseStorage_addWalletTransaction_def DatabaseStorage_getWalletBalance_def
      or_default_def varchar_def varchar_fits_def varchar_fits_opt_def numeric_2_def
      numeric_fits_def)
  apply (simp_all add: Let_def parseFloat_def fl_def scale_up.simps rne_def toFixed2_def
      round_hundredths_def numeric_2_def numeric_fits_def varchar_def varchar_fits_def
      varchar_fits_opt_def stored_balance_def ledger_def signedAmount_def)
  done

text \<open>
  C1. The stored balance of a wallet is to equal the sum of the signed amounts of its
  ledger after every sequence of \<open>addWalletTransaction\<close> calls. It does not when an
  amount has a fraction of a cent: on a wallet that \<open>createWallet\<close> has just created, a
  credit of \<open>"1.005"\<close> is stored by the database with the amount 1.01, while
  \<open>addWalletTransaction\<close> computes \<open>(0 + 1.005).toFixed(2) = "1.00"\<close> (the double nearest
  to 1.005 lies below it) and stores that as \<open>balanceAfter\<close> and as the balance of the
  wallet: the ledger sums to 1.01 and the balance is 1.00.
\<close>

theorem credit_of_fraction_of_cent_breaks_ledger_sum:
  "\<exists>wallet st1 t st2.
     DatabaseStorage_createWallet 1 ''personal'' demo_date demo_db = (Inr wallet, st1) \<and>
     DatabaseStorage_addWalletTransaction (w_id wallet) (demo_transaction ''credit'' (201 / 200))
       demo_later st1 = (Inr t, st2) \<and>
     wt_amount t = 101 \<and> wt_balanceAfter t = 100 \<and>
     stored_balance (w_id wallet) st2 = Some (Some 100) \<and>
     map signedAmount (ledger (w_id wallet) st2) = [101] \<and>
     sum_list (map signedAmount (ledger (w_id wallet) st2)) = 101"
proof -
  obtain res st2 where r: "DatabaseStorage_addWalletTransaction (w_id demo_wallet)
       (demo_transaction ''credit'' (201 / 200)) demo_later demo_db1 = (res, st2)"
    by (cases "DatabaseStorage_addWalletTransaction (w_id demo_wallet)
       (demo_transaction ''credit'' (201 / 200)) demo_later demo_db1")
  from demo_credit(1) r obtain t where
    t: "res = Inr t" "wt_amount t = 101" "wt_balanceAfter t = 100"
    by (cases res) auto
  from demo_credit(2,3) r have
    "stored_balance (w_id demo_wallet) st2 = Some (Some 100)"
    "map signedAmount (ledger (w_id demo_wallet) st2) = [101]"
    by simp_all
  with r t demo_createWallet show ?thesis
    by simp
qed

section \<open>Debits on the two balance paths\<close>

lemma floor_half_rat [simp]: "\<lfloor>1 / 2 :: rat\<rfloor> = 0"
  by (rule floor_unique) simp_all











section \<open>Withdrawals\<close>



text \<open>The two writes of \<open>createWithdrawal\<close> are not wrapped in a transaction. On a
  wallet that holds -9999999999999.99 a withdrawal of 100 is stored, the debit that
  follows is refused because its \<open>balanceAfter\<close> does not fit the column, and the call
  fails with the withdrawal left in the table and no entry in the ledger.\<close>

lemma createWithdrawal_not_atomic_example:
  "fst (DatabaseStorage_createWithdrawal 1 demo_withdrawal demo_date
          (demo_db1\<lparr> tbl_digitalWallets :=
                       [demo_wallet\<lparr> w_balance := Some (- 999999999999999) \<rparr>] \<rparr>)) =
     Inl NumericOverflow"
  "map ww_netAmount
     (tbl_walletWithdrawals
        (snd (DatabaseStorage_createWithdrawal 1 demo_withdrawal demo_date
                (demo_db1\<lparr> tbl_digitalWallets :=
                             [demo_wallet\<lparr> w_balance := Some (- 999999999999999) \<rparr>] \<rparr>)))) =
     [9750]"
  "tbl_walletTransactions
     (snd (DatabaseStorage_createWithdrawal 1 demo_withdrawal demo_date
             (demo_db1\<lparr> tbl_digitalWallets :=
                          [demo_wallet\<lparr> w_balance := Some (- 999999999999999) \<rparr>] \<rparr>))) = []"
  apply (simp_all add: demo_db1_def demo_db_def demo_wallet_def demo_withdrawal_def
      DatabaseStorage_createWithdrawal_def DatabaseStorage_addWalletTransaction_def
      DatabaseStorage_getWalletBalance_def or_default_def or_else_def varchar_def
      varchar_fits_def varchar_fits_opt_def numeric_2_def numeric_fits_def)
  apply (simp_all add: Let_def parseFloat_def fl_def scale_up.simps rne_def toFixed2_def
      round_hundredths_def numeric_2_def numeric_fits_def varchar_def varchar_fits_def
      varchar_fits_opt_def or_default_def or_else_def)
  apply (simp_all add: DatabaseStorage_addWalletTransaction_def DatabaseStorage_getWalletBalance_def
      or_default_def varchar_def varchar_fits_def varchar_fits_opt_def numeric_2_def
      numeric_fits_def)
  apply (simp_all add: Let_def parseFloat_def fl_def scale_up.simps rne_def toFixed2_def
      round_hundredths_def)
  done






section \<open>Referral status updates\<close>


text \<open>A status or a commission that does not fit its column: the database refuses the
  update and no referral changes.\<close>

lemma DatabaseStorage_updateReferralStatus_refused:
  assumes "\<not> (varchar_fits 20 status \<and> commission_fits commissionAmount)"
  shows "\<exists>e. DatabaseStorage_updateReferralStatus referralId status conversionDate
               commissionAmount st = (Inl e, st)"
  using assms by (auto simp: DatabaseStorage_updateReferralStatus_def)




section \<open>Referral codes\<close>

lemma demo_code: "referral_code_text 1 demo_date = ''REF1LOYW3V28''"
  by (simp add: referral_code_text_def demo_date_def demo_base36 toString10.simps digit_char_def)

lemma demo_code_later: "referral_code_text 1 demo_later = ''REF1LOYW3V29''"
  by (simp add: referral_code_text_def demo_later_def toString10.simps toString36.simps
      toUpperCase_def toUpperCase_char_def digit_char_def)

text \<open>\<open>DatabaseStorage.createReferralCode\<close> looks for a code of the user first, so a
  second call returns the code of the first and adds nothing.\<close>

lemma DatabaseStorage_createReferralCode_idempotent:
  assumes "DatabaseStorage_createReferralCode userId now st = (Inr rc, st1)"
  shows "DatabaseStorage_createReferralCode userId now' st1 = (Inr rc, st1)"
proof (cases "find (\<lambda>rc. rc_userId rc = userId) (tbl_referralCodes st)")
  case (Some existing)
  with assms show ?thesis
    by (simp add: DatabaseStorage_createReferralCode_def)
next
  case None
  then have fresh: "\<forall>x \<in> set (tbl_referralCodes st). \<not> rc_userId x = userId"
    by (simp add: find_None_iff)
  from assms None have rows: "tbl_referralCodes st1 = tbl_referralCodes st @ [rc]"
    and own: "rc_userId rc = userId"
    by (auto simp: DatabaseStorage_createReferralCode_def Let_def split: if_splits)
  have "find (\<lambda>rc. rc_userId rc = userId) (tbl_referralCodes st1) = Some rc"
    unfolding rows using fresh own by (rule find_append_fresh)
  then show ?thesis
    by (simp add: DatabaseStorage_createReferralCode_def)
qed

text \<open>
  C5. \<open>createReferralCode\<close> is to return the existing code of a user who has one, so
  that two calls return the same code. \<open>MemStorage.createReferralCode\<close> has no such
  check: called twice for user 1, one millisecond apart, it returns two different codes
  and keeps both; the first call returns \<open>REF1LOYW3V28\<close>, the second
  \<open>REF1LOYW3V29\<close>.
\<close>

theorem MemStorage_createReferralCode_twice:
  "\<exists>rc1 mem1 rc2 mem2.
     MemStorage_createReferralCode 1 demo_date demo_mem = (Inr rc1, mem1) \<and>
     MemStorage_createReferralCode 1 demo_later mem1 = (Inr rc2, mem2) \<and>
     rc_code rc1 = ''REF1LOYW3V28'' \<and> rc_code rc2 = ''REF1LOYW3V29'' \<and>
     rc_id rc1 = 1 \<and> rc_id rc2 = 2 \<and>
     map (rc_code \<circ> snd) (referralCodes mem2) = [''REF1LOYW3V28'', ''REF1LOYW3V29'']"
  by (simp add: MemStorage_createReferralCode_def Let_def demo_code [unfolded One_nat_def]
      demo_code_later [unfolded One_nat_def] demo_mem_def)

section \<open>The two backends side by side\<close>

text \<open>
  C2. The two backends are to give the same results and the same visible state for the
  same calls. They do not for \<open>createReferralCode(1)\<close> called twice, a millisecond
  apart, on an in-memory store and on a database that both hold user 1 and no referral
  code: the first results carry the same code, the second results do not, and the
  in-memory store ends with two codes for the user where the database has one.
\<close>

theorem backends_differ_on_createReferralCode:
  "\<exists>m1 mem1 m2 mem2 d1 st1 d2 st2.
     MemStorage_createReferralCode 1 demo_date demo_mem = (Inr m1, mem1) \<and>
     MemStorage_createReferralCode 1 demo_later mem1 = (Inr m2, mem2) \<and>
     DatabaseStorage_createReferralCode 1 demo_date demo_db = (Inr d1, st1) \<and>
     DatabaseStorage_createReferralCode 1 demo_later st1 = (Inr d2, st2) \<and>
     rc_code m1 = rc_code d1 \<and> rc_code d2 = rc_code d1 \<and> rc_code m2 \<noteq> rc_code d2 \<and>
     length (referralCodes mem2) = 2 \<and> length (tbl_referralCodes st2) = 1"
  by (simp add: MemStorage_createReferralCode_def DatabaseStorage_createReferralCode_def Let_def
      demo_code [unfolded One_nat_def] demo_code_later [unfolded One_nat_def]
      demo_mem_def demo_db_def demo_user_def)

section \<open>Daily usage\<close>

text \<open>\<open>MemStorage.updateUserUsage\<close> on a user whose last reset was on another day:
  afterwards the usage is the argument and the last reset is now.\<close>

lemma MemStorage_updateUserUsage_new_day:
  assumes "map_of (users mem) userId = Some user"
    and "different_day now (u_lastUsageReset user)"
  shows "\<exists>mem'. MemStorage_updateUserUsage userId usage now mem = (Inr (), mem') \<and>
           map_of (users mem') userId =
             Some (user\<lparr> u_dailyUsage := usage, u_lastUsageReset := now \<rparr>)"
  using assms by (simp add: MemStorage_updateUserUsage_def Let_def update_conv')

text \<open>
  C6. On a day other than that of the last reset, \<open>updateUserUsage\<close> is to move
  \<open>lastUsageReset\<close> to now and leave \<open>dailyUsage\<close> at the argument.
  \<open>DatabaseStorage.updateUserUsage\<close> only sets \<open>dailyUsage\<close>: user 1 was last reset on
  14 November 2023, and a call \<open>updateUserUsage(1, 5)\<close> on 15 November leaves the usage
  at 5 and the last reset on the 14th.
\<close>

theorem DatabaseStorage_updateUserUsage_new_day:
  "different_day demo_tomorrow (u_lastUsageReset demo_user) \<and>
   DatabaseStorage_getUser 1 demo_db = Some demo_user \<and>
   (\<exists>st'. DatabaseStorage_updateUserUsage 1 5 demo_db = (Inr (), st') \<and>
          map_option u_dailyUsage (DatabaseStorage_getUser 1 st') = Some 5 \<and>
          map_option (getDate \<circ> u_lastUsageReset) (DatabaseStorage_getUser 1 st') = Some 14 \<and>
          map_option u_lastUsageReset (DatabaseStorage_getUser 1 st') = Some demo_date)"
  by (simp add: different_day_def demo_tomorrow_def demo_user_def demo_date_def demo_db_def
      DatabaseStorage_getUser_def DatabaseStorage_updateUserUsage_def)

section \<open>Absent entities\<close>






section \<open>The chat registry\<close>

lemma ws_send_fields [simp]:
  "connectedUsers (ws_send ws f st) = connectedUsers st"
  "readyState (ws_send ws f st) = readyState st"
  "userId_of (ws_send ws f st) = userId_of st"
  by (simp_all add: ws_send_def)

lemma broadcast_fields [simp]:
  "connectedUsers (broadcast f x st) = connectedUsers st"
  "readyState (broadcast f x st) = readyState st"
  "userId_of (broadcast f x st) = userId_of st"
  by (simp_all add: broadcast_def)

lemma ws_close_fields [simp]:
  "connectedUsers (ws_close ws st) = connectedUsers st"
  "userId_of (ws_close ws st) = userId_of st"
  "readyState (ws_close ws st) ws \<noteq> OPEN"
  "ws' \<noteq> ws \<Longrightarrow> readyState (ws_close ws st) ws' = readyState st ws'"
  by (simp_all add: ws_close_def)

lemma list_all_delete: "list_all P al \<Longrightarrow> list_all P (AList.delete k al)"
  by (induction al) auto

lemma list_all_update: "list_all P al \<Longrightarrow> P (k, v) \<Longrightarrow> list_all P (AList.update k v al)"
  by (induction al) auto

lemma filter_key_distinct:
  "distinct (map fst al) \<Longrightarrow> map_of al k = Some v \<Longrightarrow> filter (\<lambda>(k', v'). k' = k) al = [(k, v)]"
proof (induction al)
  case Nil
  then show ?case by simp
next
  case (Cons p al)
  obtain k' v' where p: "p = (k', v')" by (cases p)
  show ?case
  proof (cases "k' = k")
    case True
    with Cons.prems p have "v' = v" and "k \<notin> fst ` set al" by auto
    then have "filter (\<lambda>(k', v'). k' = k) al = []"
      by (force simp: filter_empty_conv)
    with True p \<open>v' = v\<close> show ?thesis by simp
  next
    case False
    with Cons p show ?thesis by simp
  qed
qed

lemma filter_key_le_one:
  "distinct (map fst al) \<Longrightarrow> length (filter (\<lambda>(k', v'). k' = k) al) \<le> Suc 0"
proof (cases "map_of al k")
  case None
  then have "filter (\<lambda>(k', v'). k' = k) al = []"
    by (auto simp: filter_empty_conv map_of_eq_None_iff image_iff)
  then show ?thesis by simp
next
  case (Some v)
  assume "distinct (map fst al)"
  from filter_key_distinct [OF this Some] show ?thesis by simp
qed

lemma entries_for_by_key:
  "registry_keyed st \<Longrightarrow> entries_for name st = filter (\<lambda>(k, u). k = name) (connectedUsers st)"
  unfolding entries_for_def registry_keyed_def
  by (intro filter_cong refl) (auto simp: list_all_iff)

lemma registry_keyed_entries:
  "registry_keyed st \<Longrightarrow> length (entries_for name st) \<le> 1"
  using filter_key_le_one [of "connectedUsers st" name]
  by (simp add: entries_for_by_key) (simp add: registry_keyed_def)

text \<open>What \<open>join_community\<close> leaves in the registry and in the socket states.\<close>

lemma join_community_registry:
  "connectedUsers (join_community ws u t l now rnd st) =
     AList.update (or_else u (''User'' @ toString10 rnd))
       \<lparr> cu_id = or_else u (''User'' @ toString10 rnd),
         cu_username = or_else u (''User'' @ toString10 rnd),
         cu_userType = or_else t ''entrepreneur'', cu_location = l, cu_ws = ws \<rparr>
       (case find (\<lambda>(k, c). cu_username c = or_else u (''User'' @ toString10 rnd))
                  (connectedUsers st) of
          None \<Rightarrow> connectedUsers st
        | Some (k, c) \<Rightarrow> AList.delete k (connectedUsers st))"
  by (simp add: join_community_def Let_def split: option.splits)

lemma join_community_closes:
  assumes "find (\<lambda>(k, c). cu_username c = or_else u (''User'' @ toString10 rnd))
                (connectedUsers st) = Some (k, old)"
  shows "readyState (join_community ws u t l now rnd st) (cu_ws old) \<noteq> OPEN"
  using assms by (simp add: join_community_def Let_def)

lemma registry_keyed_join:
  assumes "registry_keyed st"
  shows "registry_keyed (join_community ws u t l now rnd st)"
  using assms unfolding registry_keyed_def join_community_registry
  by (auto intro!: list_all_update list_all_delete simp: distinct_update distinct_delete
      split: option.splits)

lemma registry_keyed_process:
  assumes "registry_keyed st"
  shows "registry_keyed (process e now rnd st)"
proof (cases e)
  case (connection ws)
  with assms show ?thesis by (simp add: registry_keyed_def)
next
  case (message ws m)
  show ?thesis
  proof (cases m)
    case None
    with message assms show ?thesis by simp
  next
    case (Some f)
    show ?thesis
    proof (cases f)
      case (join_community_frame u t l)
      with message Some show ?thesis
        by (simp add: registry_keyed_join [OF assms])
    next
      case (community_message_frame body)
      with message Some assms show ?thesis
        by (auto simp: community_message_case_def registry_keyed_def split: option.splits)
    next
      case other_frame
      with message Some assms show ?thesis by simp
    qed
  qed
next
  case (close ws)
  with assms show ?thesis
    by (auto simp: on_close_def Let_def registry_keyed_def distinct_delete list_all_delete
        split: option.splits)
next
  case (error ws)
  with assms show ?thesis
    by (auto simp: on_error_def registry_keyed_def distinct_delete list_all_delete
        split: option.splits)
next
  case (timeout i)
  with assms show ?thesis
    by (auto simp: on_timeout_def Let_def registry_keyed_def split: timer.splits)
qed

lemma registry_keyed_run:
  "registry_keyed st \<Longrightarrow> registry_keyed (run trace st)"
  by (induction trace arbitrary: st) (auto simp: registry_keyed_process)

lemma registry_keyed_init: "registry_keyed chat_init"
  by (simp add: registry_keyed_def chat_init_def)

lemma join_community_entries:
  assumes "registry_keyed st"
  shows "entries_for (or_else u (''User'' @ toString10 rnd)) (join_community ws u t l now rnd st) =
         [(or_else u (''User'' @ toString10 rnd),
           \<lparr> cu_id = or_else u (''User'' @ toString10 rnd),
             cu_username = or_else u (''User'' @ toString10 rnd),
             cu_userType = or_else t ''entrepreneur'', cu_location = l, cu_ws = ws \<rparr>)]"
proof -
  let ?st' = "join_community ws u t l now rnd st"
  have keyed: "registry_keyed ?st'"
    using assms by (rule registry_keyed_join)
  then have d: "distinct (map fst (connectedUsers ?st'))"
    by (simp add: registry_keyed_def)
  have m: "map_of (connectedUsers ?st') (or_else u (''User'' @ toString10 rnd)) =
           Some \<lparr> cu_id = or_else u (''User'' @ toString10 rnd),
                  cu_username = or_else u (''User'' @ toString10 rnd),
                  cu_userType = or_else t ''entrepreneur'', cu_location = l, cu_ws = ws \<rparr>"
    by (simp add: join_community_registry update_conv')
  show ?thesis
    unfolding entries_for_by_key [OF keyed] by (rule filter_key_distinct [OF d m])
qed

lemma demo_trace_registry:
  "connectedUsers (run demo_trace chat_init) = [(''Alice'', demo_alice 1)]"
  by (simp add: demo_trace_def join_community_registry chat_init_def or_else_def demo_alice_def)

text \<open>
  C8. After every sequence of events processed from the start of the server, the
  registry holds at most one entry for each username. When a \<open>join_community\<close> names a
  username that has an entry, the socket of that entry has been closed by the time the
  handler returns (it is no longer open), and the registry then holds exactly one entry
  for the username, which is the joining connection.
\<close>

theorem one_connection_per_username:
  assumes "st = run trace chat_init"
    and "st' = process (message ws (Some (join_community_frame (Some name) t l))) now rnd st"
    and "name \<noteq> []"
  shows "(\<forall>n. length (entries_for n st) \<le> 1) \<and>
         (\<forall>k old. find (\<lambda>(k, c). cu_username c = name) (connectedUsers st) = Some (k, old) \<longrightarrow>
                    readyState st' (cu_ws old) \<noteq> OPEN) \<and>
         (\<exists>new. entries_for name st' = [(name, new)] \<and> cu_ws new = ws)"
proof -
  have keyed: "registry_keyed st"
    unfolding assms(1) using registry_keyed_init by (rule registry_keyed_run)
  have name: "or_else (Some name) d = name" for d
    using assms(3) by (simp add: or_else_def)
  have "\<forall>n. length (entries_for n st) \<le> 1"
    using registry_keyed_entries [OF keyed] by blast
  moreover have "readyState st' (cu_ws old) \<noteq> OPEN"
    if "find (\<lambda>(k, c). cu_username c = name) (connectedUsers st) = Some (k, old)" for k old
    using join_community_closes [of "Some name" rnd st k old ws t l now] that
    by (simp add: name assms(2))
  moreover have "\<exists>new. entries_for name st' = [(name, new)] \<and> cu_ws new = ws"
    using join_community_entries [OF keyed, of "Some name" rnd ws t l now]
    by (simp add: name assms(2))
  ultimately show ?thesis by blast
qed

text \<open>Alice joins on socket 1; a second connection, socket 2, joins as Alice.\<close>

theorem one_connection_per_username_witness:
  "find (\<lambda>(k, c). cu_username c = ''Alice'') (connectedUsers (run demo_trace chat_init)) =
     Some (''Alice'', demo_alice 1) \<and>
   length (entries_for ''Alice'' (run demo_trace chat_init)) \<le> 1 \<and>
   readyState
     (process (message 2 (Some (join_community_frame (Some ''Alice'') None None))) demo_later 0
        (run demo_trace chat_init)) 1 \<noteq> OPEN \<and>
   (\<exists>new. entries_for ''Alice''
            (process (message 2 (Some (join_community_frame (Some ''Alice'') None None)))
               demo_later 0 (run demo_trace chat_init)) = [(''Alice'', new)] \<and>
          cu_ws new = 2)"
proof -
  have h: "find (\<lambda>(k, c). cu_username c = ''Alice'') (connectedUsers (run demo_trace chat_init)) =
           Some (''Alice'', demo_alice 1)"
    by (simp add: demo_trace_registry) (simp add: demo_alice_def)
  have ws: "cu_ws (demo_alice 1) = 1"
    by (simp add: demo_alice_def)
  have ne: "''Alice'' \<noteq> []"
    by simp
  from one_connection_per_username [OF refl refl ne, where trace = demo_trace and ws = 2
          and t = None and l = None and now = demo_later and rnd = 0]
  show ?thesis
    using h ws by (metis (no_types, lifting))
qed

section \<open>Chat messages\<close>

text \<open>
  C9. When a \<open>community_message\<close> arrives on a connection whose \<open>userId\<close> is a key of
  the registry, the frames handed out are exactly one \<open>community_message\<close> frame for
  every registry entry whose socket is open, in registry order, with nobody excluded:
  the entry of the sender receives it when its socket is open. The frame carries the id
  and the timestamp taken from the server's clock, and the sender's username and user
  type. When the connection has not joined (its \<open>userId\<close> is null) nothing is sent and
  nothing changes.
\<close>

theorem community_message_goes_to_every_open_participant:
  assumes "st' = process (message ws (Some (community_message_frame body))) now rnd st"
    and "f = community_message (toString10 (getTime now)) (cu_username sender) body now
               (cu_userType sender)"
  shows "(userId_of st ws = Some uid \<and> uid \<noteq> [] \<and> map_of (connectedUsers st) uid = Some sender \<longrightarrow>
            delivered st' = delivered st @
              map (\<lambda>(k, u). (cu_ws u, f))
                  (filter (\<lambda>(k, u). readyState st (cu_ws u) = OPEN) (connectedUsers st)) \<and>
            (\<forall>(k, u) \<in> set (connectedUsers st).
                readyState st (cu_ws u) = OPEN \<longrightarrow> (cu_ws u, f) \<in> set (delivered st')) \<and>
            (readyState st (cu_ws sender) = OPEN \<longrightarrow> (cu_ws sender, f) \<in> set (delivered st')) \<and>
            connectedUsers st' = connectedUsers st) \<and>
         (userId_of st ws = None \<longrightarrow> st' = st)"
proof -
  have none: "userId_of st ws = None \<longrightarrow> st' = st"
    by (simp add: assms(1) community_message_case_def)
  have some: "delivered st' = delivered st @
              map (\<lambda>(k, u). (cu_ws u, f))
                  (filter (\<lambda>(k, u). readyState st (cu_ws u) = OPEN) (connectedUsers st)) \<and>
            (\<forall>(k, u) \<in> set (connectedUsers st).
                readyState st (cu_ws u) = OPEN \<longrightarrow> (cu_ws u, f) \<in> set (delivered st')) \<and>
            (readyState st (cu_ws sender) = OPEN \<longrightarrow> (cu_ws sender, f) \<in> set (delivered st')) \<and>
            connectedUsers st' = connectedUsers st"
    if a: "userId_of st ws = Some uid" "uid \<noteq> []" "map_of (connectedUsers st) uid = Some sender"
  proof -
    have d: "delivered st' = delivered st @
              map (\<lambda>(k, u). (cu_ws u, f))
                  (filter (\<lambda>(k, u). readyState st (cu_ws u) = OPEN) (connectedUsers st))"
      using a by (simp add: assms community_message_case_def broadcast_def)
    have r: "connectedUsers st' = connectedUsers st"
      using a by (simp add: assms(1) community_message_case_def)
    have mem: "(uid, sender) \<in> set (connectedUsers st)"
      using a(3) by (rule map_of_SomeD)
    have all: "\<forall>(k, u) \<in> set (connectedUsers st).
                readyState st (cu_ws u) = OPEN \<longrightarrow> (cu_ws u, f) \<in> set (delivered st')"
      unfolding d by force
    from all mem have "readyState st (cu_ws sender) = OPEN \<longrightarrow> (cu_ws sender, f) \<in> set (delivered st')"
      by fastforce
    with d r all show ?thesis by blast
  qed
  from none some show ?thesis by blast
qed

text \<open>Alice is connected on socket 1 and Bob on socket 2; Alice says hello. Socket 7
  is connected and has not joined.\<close>

lemma join_community_sockets:
  "userId_of (join_community ws u t l now rnd st) =
     (userId_of st)(ws := Some (or_else u (''User'' @ toString10 rnd)))"
  "readyState (join_community ws u t l now rnd st) =
     (case find (\<lambda>(k, c). cu_username c = or_else u (''User'' @ toString10 rnd))
                (connectedUsers st) of
        None \<Rightarrow> readyState st
      | Some (k, c) \<Rightarrow> readyState (ws_close (cu_ws c) st))"
  by (simp_all add: join_community_def Let_def ws_close_def split: option.splits)

lemma demo_trace2_state:
  "connectedUsers (run demo_trace2 chat_init) = [(''Alice'', demo_alice 1), (''Bob'', demo_bob 2)]"
  "userId_of (run demo_trace2 chat_init) 1 = Some ''Alice''"
  "userId_of (run demo_trace2 chat_init) 7 = None"
  "readyState (run demo_trace2 chat_init) 1 = OPEN"
  "readyState (run demo_trace2 chat_init) 2 = OPEN"
  by (simp_all add: demo_trace2_def join_community_registry join_community_sockets chat_init_def
      or_else_def demo_alice_def demo_bob_def)

theorem community_message_goes_to_every_open_participant_witness:
  "userId_of (run demo_trace2 chat_init) 1 = Some ''Alice'' \<and>
   map_of (connectedUsers (run demo_trace2 chat_init)) ''Alice'' = Some (demo_alice 1) \<and>
   delivered (process (message 1 (Some (community_message_frame ''hello''))) demo_later 0
                (run demo_trace2 chat_init)) =
     delivered (run demo_trace2 chat_init) @ [(1, demo_hello), (2, demo_hello)] \<and>
   userId_of (run demo_trace2 chat_init) 7 = None \<and>
   process (message 7 (Some (community_message_frame ''hello''))) demo_later 0
     (run demo_trace2 chat_init) = run demo_trace2 chat_init"
proof -
  have f: "community_message (toString10 (getTime demo_later)) (cu_username (demo_alice 1))
             ''hello'' demo_later (cu_userType (demo_alice 1)) = demo_hello"
    by (simp add: demo_hello_def demo_later_def demo_alice_def toString10.simps digit_char_def)
  have h: "userId_of (run demo_trace2 chat_init) 1 = Some ''Alice''"
     "''Alice'' \<noteq> []"
     "map_of (connectedUsers (run demo_trace2 chat_init)) ''Alice'' = Some (demo_alice 1)"
     "userId_of (run demo_trace2 chat_init) 7 = None"
    using demo_trace2_state by simp_all
  have ws: "cu_ws (demo_alice 1) = 1" "cu_ws (demo_bob 2) = 2"
    by (simp_all add: demo_alice_def demo_bob_def)
  from h
      community_message_goes_to_every_open_participant
        [OF refl refl, where st = "run demo_trace2 chat_init" and ws = 1 and uid = "''Alice''"
           and sender = "demo_alice 1" and body = "''hello''" and now = demo_later and rnd = 0]
      community_message_goes_to_every_open_participant
        [OF refl refl, where st = "run demo_trace2 chat_init" and ws = 7
           and body = "''hello''" and now = demo_later and rnd = 0]
  show ?thesis
    using demo_trace2_state f ws by simp
qed

end
